theory Spec2Isabelle
  imports Complex_Main "HOL-Library.Sublist"
begin

section \<open>JavaScript values, errors and promises\<close>

text \<open>
  The handlers of \<open>src/index.ts\<close> build their responses as object literals and pass
  values of type \<open>any\<close> through from the Splunk SDK. Such values are modelled as
  JSON-like trees. A number is modelled by its exact rational value (every finite double
  is one; NaN and the infinities cannot arrive through the JSON transport). An object is
  the list of its properties in the order JavaScript enumerates them, each name once. A
  string is the list of the bytes of its UTF-8 form.
\<close>

datatype jsval =
    JUndefined
  | JNull
  | JBoolean bool
  | JNumber rat
  | JString string
  | JArray "jsval list"
  | JObject "(string \<times> jsval) list"

text \<open>Property access \<open>obj.key\<close>: a property that is not there reads as \<open>undefined\<close>.\<close>

fun get :: "jsval \<Rightarrow> string \<Rightarrow> jsval" where
  "get (JObject kvs) k = (case map_of kvs k of Some v \<Rightarrow> v | None \<Rightarrow> JUndefined)"
| "get _ k = JUndefined"

text \<open>
  What a \<open>catch (error)\<close> clause or the \<open>err\<close> argument of an SDK callback can hold:
  an instance of \<open>Error\<close> with its message, or any other truthy value, kept as the
  text \<open>String(error)\<close> gives for it.
\<close>

datatype js_error = Error string | NonError string

text \<open>\<open>error instanceof Error ? error.message : String(error)\<close>\<close>

fun error_text :: "js_error \<Rightarrow> string" where
  "error_text (Error m) = m"
| "error_text (NonError s) = s"

text \<open>
  A promise after the external system has called back. Every SDK callback is taken to be
  invoked exactly once, and later than the call that registered it (by the SDK, when the
  server has answered). \<open>Unsettled e\<close> is the case where the callback itself threw
  \<open>e\<close>: neither \<open>resolve\<close> nor \<open>reject\<close> was reached, the exception went to the
  SDK that invoked the callback, and whoever awaits the promise never resumes.
\<close>

datatype 'a promise = Resolved 'a | Rejected js_error | Unsettled js_error

text \<open>The TypeError of reading property \<open>p\<close> of \<open>undefined\<close> (the text Node.js gives it).\<close>

definition TypeError_undefined :: "string \<Rightarrow> js_error" where
  "TypeError_undefined p =
     Error (''Cannot read properties of undefined (reading '' @ [CHR 0x27] @ p @ [CHR 0x27] @ '')'')"

section \<open>The Splunk SDK as declared in \<open>src/types/splunk-sdk.d.ts\<close>\<close>

record SplunkConfig =
  host :: string
  port :: rat
  username :: string
  password :: string
  scheme :: string

record ServiceOptions = SplunkConfig +
  version :: string

datatype SplunkService = Service ServiceOptions

text \<open>
  An object of the SDK is the record of what its methods will deliver to their callbacks:
  a pair \<open>(err, value)\<close>, each of which may be absent, as the declarations
  \<open>(err?: Error, job?: SearchJob)\<close> allow.
\<close>

record SearchJob =
  track :: "js_error option"
  results :: "string \<Rightarrow> js_error option \<times> jsval"

record dispatch_times =
  earliest_time :: "string option"
  latest_time :: "string option"

record SavedSearch_properties =
  search :: string
  description :: string
  dispatch :: "dispatch_times option"

record SavedSearch =
  name :: string
  properties :: SavedSearch_properties
  dispatch_call :: "dispatch_times \<Rightarrow> js_error option \<times> SearchJob option"

text \<open>
  A fetched collection holds its entities; \<open>list()\<close> returns them and \<open>item(name)\<close>
  returns the entity of that name, or \<open>null\<close> when the collection has none.
\<close>

record SavedSearches =
  list :: "SavedSearch list"

definition item :: "SavedSearches \<Rightarrow> string \<Rightarrow> SavedSearch option" where
  "item c n = find (\<lambda>s. name s = n) (list c)"

record Index_properties =
  totalEventCount :: rat
  currentDBSizeMB :: rat
  maxDataSize :: string

record Index =
  index_name :: string
  index_properties :: Index_properties

record Indexes =
  index_list :: "Index list"

record ServerInfo_properties =
  info_version :: string
  build :: string
  serverName :: string
  licenseState :: string
  mode :: string

record ServerInfo =
  info_properties :: ServerInfo_properties

record searchParams =
  sp_search :: string
  sp_output_mode :: string
  sp_count :: rat
  sp_earliest_time :: "string option"
  sp_latest_time :: "string option"

text \<open>
  The world outside the program: the text JavaScript gives for a number (in a template
  literal and in \<open>JSON.stringify\<close>), and what the Splunk server behind a service will
  answer to each request.
\<close>

record env =
  String_of_number :: "rat \<Rightarrow> string"
  login :: "SplunkService \<Rightarrow> js_error option"
  search_call :: "SplunkService \<Rightarrow> string \<Rightarrow> searchParams \<Rightarrow> js_error option \<times> SearchJob option"
  savedSearches_fetch :: "SplunkService \<Rightarrow> js_error option \<times> SavedSearches option"
  indexes_fetch :: "SplunkService \<Rightarrow> js_error option \<times> Indexes option"
  serverInfo :: "SplunkService \<Rightarrow> js_error option \<times> ServerInfo option"

section \<open>\<open>JSON.stringify(value, null, 2)\<close>\<close>

text \<open>
  The values JSON text can denote. \<open>JSON.stringify\<close> writes nothing for \<open>undefined\<close>:
  a property whose value is \<open>undefined\<close> is left out of its object, an \<open>undefined\<close>
  element of an array is written as \<open>null\<close>, and for \<open>undefined\<close> itself the result is
  \<open>undefined\<close>.
\<close>

datatype json =
    Json_null
  | Json_boolean bool
  | Json_number rat
  | Json_string string
  | Json_array "json list"
  | Json_object "(string \<times> json) list"

primrec JSON_value :: "jsval \<Rightarrow> json option" where
  "JSON_value JUndefined = None"
| "JSON_value JNull = Some Json_null"
| "JSON_value (JBoolean b) = Some (Json_boolean b)"
| "JSON_value (JNumber n) = Some (Json_number n)"
| "JSON_value (JString s) = Some (Json_string s)"
| "JSON_value (JArray vs) =
     Some (Json_array
             (map (\<lambda>j. case j of None \<Rightarrow> Json_null | Some x \<Rightarrow> x) (map JSON_value vs)))"
| "JSON_value (JObject kvs) =
     Some (Json_object
             (List.map_filter (\<lambda>(k, j). map_option (Pair k) j)
                (map (map_prod id JSON_value) kvs)))"

text \<open>
  A string between double quotes: the quote and the backslash are escaped, the control
  characters below U+0020 are written by their short escape or as \<open>\u00xx\<close>, every
  other character stands for itself.
\<close>

definition hex_digit :: "nat \<Rightarrow> char" where
  "hex_digit d = ''0123456789abcdef'' ! (d mod 16)"

definition escape :: "char \<Rightarrow> string" where
  "escape c =
     (if c = CHR 0x22 then [CHR 0x5C, CHR 0x22]
      else if c = CHR 0x5C then [CHR 0x5C, CHR 0x5C]
      else if c = CHR 0x08 then [CHR 0x5C, CHR ''b'']
      else if c = CHR 0x0C then [CHR 0x5C, CHR ''f'']
      else if c = CHR 0x0A then [CHR 0x5C, CHR ''n'']
      else if c = CHR 0x0D then [CHR 0x5C, CHR ''r'']
      else if c = CHR 0x09 then [CHR 0x5C, CHR ''t'']
      else if (of_char c :: nat) < 32
        then [CHR 0x5C, CHR ''u'', CHR ''0'', CHR ''0'',
              hex_digit (of_char c div 16), hex_digit (of_char c)]
      else [c])"

definition quote :: "string \<Rightarrow> string" where
  "quote s = [CHR 0x22] @ concat (map escape s) @ [CHR 0x22]"

text \<open>
  With the indentation of two spaces: an empty array or object is written as its two
  brackets; otherwise every item is on a line of its own, indented one step further than
  the brackets, the items separated by commas.
\<close>

definition newline :: string where
  "newline = [CHR 0x0A]"

definition indent :: "nat \<Rightarrow> string" where
  "indent n = concat (replicate n ''  '')"

fun join :: "string \<Rightarrow> string list \<Rightarrow> string" where
  "join sep [] = []"
| "join sep [x] = x"
| "join sep (x # y # ys) = x @ sep @ join sep (y # ys)"

definition bracketed :: "string \<Rightarrow> string \<Rightarrow> nat \<Rightarrow> string list \<Rightarrow> string" where
  "bracketed opening closing n items =
     (if items = [] then opening @ closing
      else opening @ newline @ indent (Suc n)
           @ join ('','' @ newline @ indent (Suc n)) items
           @ newline @ indent n @ closing)"

primrec JSON_text :: "(rat \<Rightarrow> string) \<Rightarrow> json \<Rightarrow> nat \<Rightarrow> string" where
  "JSON_text num Json_null = (\<lambda>n. ''null'')"
| "JSON_text num (Json_boolean b) = (\<lambda>n. if b then ''true'' else ''false'')"
| "JSON_text num (Json_number r) = (\<lambda>n. num r)"
| "JSON_text num (Json_string s) = (\<lambda>n. quote s)"
| "JSON_text num (Json_array xs) =
     (\<lambda>n. bracketed ''['' '']'' n (map (\<lambda>t. t (Suc n)) (map (JSON_text num) xs)))"
| "JSON_text num (Json_object kvs) =
     (\<lambda>n. bracketed ''{'' ''}'' n
            (map (\<lambda>(k, t). quote k @ '': '' @ t (Suc n))
               (map (map_prod id (JSON_text num)) kvs)))"

definition JSON_stringify :: "env \<Rightarrow> jsval \<Rightarrow> jsval" where
  "JSON_stringify e v =
     (case JSON_value v of
        None \<Rightarrow> JUndefined
      | Some j \<Rightarrow> JString (JSON_text (String_of_number e) j 0))"

text \<open>The lines of a text, a line feed between one and the next.\<close>

definition unlines :: "string list \<Rightarrow> string" where
  "unlines ls = join newline ls"

text \<open>The property an object has when the value is defined, as a list of none or one.\<close>

definition when_defined :: "string \<Rightarrow> string option \<Rightarrow> (string \<times> json) list" where
  "when_defined k v = (case v of None \<Rightarrow> [] | Some t \<Rightarrow> [(k, Json_string t)])"

section \<open>The requests sent to the SDK\<close>

text \<open>The requests a run of an operation sends to the SDK, in order.\<close>

datatype call =
    Call_login SplunkService
  | Call_search SplunkService string searchParams
  | Call_track
  | Call_results string
  | Call_savedSearches_fetch SplunkService
  | Call_indexes_fetch SplunkService
  | Call_dispatch string dispatch_times
  | Call_serverInfo SplunkService

section \<open>The client component: class \<open>SplunkMCPServer\<close>\<close>

record SplunkMCPServer =
  splunkService :: "SplunkService option"

type_synonym 'a run = "'a \<times> SplunkMCPServer \<times> call list"

definition not_initialized :: js_error where
  "not_initialized = Error ''Splunk service not initialized''"

text \<open>\<open>new Service({host: config.host, ..., scheme: config.scheme, version: "8.0"})\<close>\<close>

definition new_Service :: "SplunkConfig \<Rightarrow> SplunkService" where
  "new_Service config =
     Service \<lparr>host = host config, port = port config, username = username config,
              password = password config, scheme = scheme config, version = ''8.0''\<rparr>"

text \<open>
  \<open>configureSplunkConnection\<close> is made of two functions. The executor of the promise
  assigns the handle of the new service and calls \<open>login\<close> on it; while the answer is
  awaited the handle is already in place. The callback of \<open>login\<close> clears the handle
  when it is given an error and leaves it when it is not.
\<close>

definition assign_Service :: "SplunkConfig \<Rightarrow> SplunkMCPServer \<Rightarrow> SplunkMCPServer" where
  "assign_Service config this = this\<lparr>splunkService := Some (new_Service config)\<rparr>"

definition login_callback :: "js_error option \<Rightarrow> SplunkMCPServer \<Rightarrow> unit promise \<times> SplunkMCPServer" where
  "login_callback err this =
     (case err of
        Some x \<Rightarrow> (Rejected x, this\<lparr>splunkService := None\<rparr>)
      | None \<Rightarrow> (Resolved (), this))"

definition configureSplunkConnection ::
  "env \<Rightarrow> SplunkConfig \<Rightarrow> SplunkMCPServer \<Rightarrow> unit promise run" where
  "configureSplunkConnection e config this =
     (let svc = new_Service config;
          this1 = assign_Service config this
      in case login_callback (login e svc) this1 of
           (p, this2) \<Rightarrow> (p, this2, [Call_login svc]))"

definition runSearch ::
  "env \<Rightarrow> searchParams \<Rightarrow> SplunkMCPServer \<Rightarrow> SearchJob option promise run" where
  "runSearch e params this =
     (case splunkService this of
        None \<Rightarrow> (Rejected not_initialized, this, [])
      | Some svc \<Rightarrow>
          (case search_call e svc (sp_search params) params of
             (Some err, _) \<Rightarrow> (Rejected err, this, [Call_search svc (sp_search params) params])
           | (None, job) \<Rightarrow> (Resolved job, this, [Call_search svc (sp_search params) params])))"

definition getSearchResults ::
  "SearchJob option \<Rightarrow> string \<Rightarrow> SplunkMCPServer \<Rightarrow> jsval promise run" where
  "getSearchResults job outputMode this =
     (case job of
        None \<Rightarrow> (Rejected (TypeError_undefined ''track''), this, [])
      | Some j \<Rightarrow>
          (case track j of
             Some err \<Rightarrow> (Rejected err, this, [Call_track])
           | None \<Rightarrow>
               (case results j outputMode of
                  (Some err, _) \<Rightarrow> (Rejected err, this, [Call_track, Call_results outputMode])
                | (None, res) \<Rightarrow> (Resolved res, this, [Call_track, Call_results outputMode]))))"

text \<open>
  \<open>savedSearches?.list().map(search => ({name: ..., ...}))\<close>: one object literal per
  entity; without a collection the optional chain gives \<open>undefined\<close>.
\<close>

definition opt_string :: "string option \<Rightarrow> jsval" where
  "opt_string s = (case s of None \<Rightarrow> JUndefined | Some t \<Rightarrow> JString t)"

definition project_search :: "SavedSearch \<Rightarrow> jsval" where
  "project_search s =
     JObject
       [(''name'', JString (name s)),
        (''search'', JString (search (properties s))),
        (''description'', JString (description (properties s))),
        (''earliest_time'',
           (case dispatch (properties s) of None \<Rightarrow> JUndefined | Some d \<Rightarrow> opt_string (earliest_time d))),
        (''latest_time'',
           (case dispatch (properties s) of None \<Rightarrow> JUndefined | Some d \<Rightarrow> opt_string (latest_time d)))]"

definition getSavedSearches :: "env \<Rightarrow> SplunkMCPServer \<Rightarrow> jsval promise run" where
  "getSavedSearches e this =
     (case splunkService this of
        None \<Rightarrow> (Rejected not_initialized, this, [])
      | Some svc \<Rightarrow>
          (case savedSearches_fetch e svc of
             (Some err, _) \<Rightarrow> (Rejected err, this, [Call_savedSearches_fetch svc])
           | (None, savedSearches) \<Rightarrow>
               (let searches =
                      (case savedSearches of
                         None \<Rightarrow> JUndefined
                       | Some c \<Rightarrow> JArray (map project_search (list c)))
                in (Resolved searches, this, [Call_savedSearches_fetch svc]))))"

definition project_index :: "Index \<Rightarrow> jsval" where
  "project_index i =
     JObject
       [(''name'', JString (index_name i)),
        (''totalEventCount'', JNumber (totalEventCount (index_properties i))),
        (''currentDBSizeMB'', JNumber (currentDBSizeMB (index_properties i))),
        (''maxDataSize'', JString (maxDataSize (index_properties i)))]"

definition getIndexes :: "env \<Rightarrow> SplunkMCPServer \<Rightarrow> jsval promise run" where
  "getIndexes e this =
     (case splunkService this of
        None \<Rightarrow> (Rejected not_initialized, this, [])
      | Some svc \<Rightarrow>
          (case indexes_fetch e svc of
             (Some err, _) \<Rightarrow> (Rejected err, this, [Call_indexes_fetch svc])
           | (None, indexes) \<Rightarrow>
               (let indexList =
                      (case indexes of
                         None \<Rightarrow> JUndefined
                       | Some c \<Rightarrow> JArray (map project_index (index_list c)))
                in (Resolved indexList, this, [Call_indexes_fetch svc]))))"

text \<open>
  \<open>if (earliestTime)\<close> on an optional string: \<open>undefined\<close> and the empty string are
  falsy.
\<close>

fun truthy :: "string option \<Rightarrow> bool" where
  "truthy None = False"
| "truthy (Some s) = (s \<noteq> [])"

definition when_truthy :: "string option \<Rightarrow> string option" where
  "when_truthy s = (if truthy s then s else None)"

definition not_found :: "string \<Rightarrow> js_error" where
  "not_found n = Error (''Saved search '' @ [CHR 0x27] @ n @ [CHR 0x27] @ '' not found'')"

text \<open>
  In the callback of \<open>dispatch\<close> the job is used without a check: when the SDK delivers
  neither an error nor a job, \<open>job.track\<close> throws inside the callback.
\<close>

definition runSavedSearch ::
  "env \<Rightarrow> string \<Rightarrow> string option \<Rightarrow> string option \<Rightarrow> SplunkMCPServer \<Rightarrow> jsval promise run" where
  "runSavedSearch e n earliestTime latestTime this =
     (case splunkService this of
        None \<Rightarrow> (Rejected not_initialized, this, [])
      | Some svc \<Rightarrow>
          (case savedSearches_fetch e svc of
             (Some err, _) \<Rightarrow> (Rejected err, this, [Call_savedSearches_fetch svc])
           | (None, savedSearches) \<Rightarrow>
               (case (case savedSearches of None \<Rightarrow> None | Some c \<Rightarrow> item c n) of
                  None \<Rightarrow> (Rejected (not_found n), this, [Call_savedSearches_fetch svc])
                | Some savedSearch \<Rightarrow>
                    (let dispatchOptions =
                           \<lparr>earliest_time = when_truthy earliestTime,
                            latest_time = when_truthy latestTime\<rparr>;
                         sent = [Call_savedSearches_fetch svc,
                                 Call_dispatch (name savedSearch) dispatchOptions]
                     in case dispatch_call savedSearch dispatchOptions of
                          (Some err, _) \<Rightarrow> (Rejected err, this, sent)
                        | (None, None) \<Rightarrow> (Unsettled (TypeError_undefined ''track''), this, sent)
                        | (None, Some job) \<Rightarrow>
                            (case track job of
                               Some err \<Rightarrow> (Rejected err, this, sent @ [Call_track])
                             | None \<Rightarrow>
                                 (case results job ''json'' of
                                    (Some err, _) \<Rightarrow>
                                      (Rejected err, this, sent @ [Call_track, Call_results ''json''])
                                  | (None, res) \<Rightarrow>
                                      (Resolved res, this, sent @ [Call_track, Call_results ''json''])))))))"

definition getServerInfo :: "env \<Rightarrow> SplunkMCPServer \<Rightarrow> jsval promise run" where
  "getServerInfo e this =
     (case splunkService this of
        None \<Rightarrow> (Rejected not_initialized, this, [])
      | Some svc \<Rightarrow>
          (case serverInfo e svc of
             (Some err, _) \<Rightarrow> (Rejected err, this, [Call_serverInfo svc])
           | (None, info) \<Rightarrow>
               (let props = map_option info_properties info;
                    prop = (\<lambda>f. case props of None \<Rightarrow> JUndefined | Some p \<Rightarrow> JString (f p))
                in (Resolved
                      (JObject
                         [(''version'', prop info_version),
                          (''build'', prop build),
                          (''serverName'', prop serverName),
                          (''licenseState'', prop licenseState),
                          (''mode'', prop mode)]),
                    this, [Call_serverInfo svc]))))"

section \<open>The protocol adapter: tool and resource handlers\<close>

text \<open>
  \<open>await\<close> inside an \<open>async\<close> function: the rest of the function runs on the value the
  promise resolved with; a rejection is thrown to the enclosing \<open>try\<close>; a promise that is
  never settled leaves the function suspended. The requests sent are appended in order.
\<close>

definition await :: "'a promise run \<Rightarrow> ('a \<Rightarrow> SplunkMCPServer \<Rightarrow> 'b promise run) \<Rightarrow> 'b promise run" where
  "await r k =
     (case r of
        (Resolved a, this, sent) \<Rightarrow> (case k a this of (p, this', sent') \<Rightarrow> (p, this', sent @ sent'))
      | (Rejected err, this, sent) \<Rightarrow> (Rejected err, this, sent)
      | (Unsettled err, this, sent) \<Rightarrow> (Unsettled err, this, sent))"

text \<open>\<open>try { ... } catch (error) { return h(error) }\<close> around the body of a handler.\<close>

definition try_catch :: "jsval promise run \<Rightarrow> (js_error \<Rightarrow> jsval) \<Rightarrow> jsval promise run" where
  "try_catch body h =
     (case body of
        (Rejected err, this, sent) \<Rightarrow> (Resolved (h err), this, sent)
      | other \<Rightarrow> other)"

text \<open>The guard every data-access handler starts with.\<close>

definition configure_first :: js_error where
  "configure_first = Error ''Splunk service not initialized. Please configure connection first.''"

definition text_content :: "jsval \<Rightarrow> jsval" where
  "text_content t = JObject [(''type'', JString ''text''), (''text'', t)]"

text \<open>\<open>{content: [{type: "text", text: t}]}\<close>\<close>

definition tool_result :: "jsval \<Rightarrow> jsval" where
  "tool_result t = JObject [(''content'', JArray [text_content t])]"

text \<open>\<open>{content: [{type: "text", text: `prefix${message}`}], isError: true}\<close>\<close>

definition tool_error :: "string \<Rightarrow> js_error \<Rightarrow> jsval" where
  "tool_error pfx err =
     JObject [(''content'', JArray [text_content (JString (pfx @ error_text err))]),
              (''isError'', JBoolean True)]"

record search_args =
  query :: string
  arg_earliest_time :: "string option"
  arg_latest_time :: "string option"
  max_count :: rat
  output_mode :: string

text \<open>\<open>query.startsWith("search") ? query : `search ${query}`\<close>\<close>

definition search_text :: "string \<Rightarrow> string" where
  "search_text q = (if prefix ''search'' q then q else ''search '' @ q)"

definition make_searchParams :: "search_args \<Rightarrow> searchParams" where
  "make_searchParams a =
     \<lparr>sp_search = search_text (query a),
      sp_output_mode = output_mode a,
      sp_count = max_count a,
      sp_earliest_time = when_truthy (arg_earliest_time a),
      sp_latest_time = when_truthy (arg_latest_time a)\<rparr>"

definition search_try :: "env \<Rightarrow> search_args \<Rightarrow> SplunkMCPServer \<Rightarrow> jsval promise run" where
  "search_try e a this =
     (if splunkService this = None then (Rejected configure_first, this, [])
      else
        await (runSearch e (make_searchParams a) this) (\<lambda>searchJob this.
        await (getSearchResults searchJob (output_mode a) this) (\<lambda>results this.
          (Resolved
             (tool_result
                (case results of JString s \<Rightarrow> JString s | _ \<Rightarrow> JSON_stringify e results)),
           this, []))))"

definition search_handler :: "env \<Rightarrow> search_args \<Rightarrow> SplunkMCPServer \<Rightarrow> jsval promise run" where
  "search_handler e a this =
     try_catch (search_try e a this) (tool_error ''Error executing search: '')"

definition configure_try :: "env \<Rightarrow> SplunkConfig \<Rightarrow> SplunkMCPServer \<Rightarrow> jsval promise run" where
  "configure_try e config this =
     await (configureSplunkConnection e config this) (\<lambda>_ this.
       (Resolved
          (tool_result
             (JString (''Successfully connected to Splunk at '' @ scheme config @ ''://''
                       @ host config @ '':'' @ String_of_number e (port config)))),
        this, []))"

definition configure_handler :: "env \<Rightarrow> SplunkConfig \<Rightarrow> SplunkMCPServer \<Rightarrow> jsval promise run" where
  "configure_handler e config this =
     try_catch (configure_try e config this) (tool_error ''Failed to connect to Splunk: '')"

definition list_saved_searches_try :: "env \<Rightarrow> SplunkMCPServer \<Rightarrow> jsval promise run" where
  "list_saved_searches_try e this =
     (if splunkService this = None then (Rejected configure_first, this, [])
      else
        await (getSavedSearches e this) (\<lambda>savedSearches this.
          (Resolved (tool_result (JSON_stringify e savedSearches)), this, [])))"

definition list_saved_searches_handler :: "env \<Rightarrow> SplunkMCPServer \<Rightarrow> jsval promise run" where
  "list_saved_searches_handler e this =
     try_catch (list_saved_searches_try e this) (tool_error ''Error listing saved searches: '')"

definition list_indexes_try :: "env \<Rightarrow> SplunkMCPServer \<Rightarrow> jsval promise run" where
  "list_indexes_try e this =
     (if splunkService this = None then (Rejected configure_first, this, [])
      else
        await (getIndexes e this) (\<lambda>indexes this.
          (Resolved (tool_result (JSON_stringify e indexes)), this, [])))"

definition list_indexes_handler :: "env \<Rightarrow> SplunkMCPServer \<Rightarrow> jsval promise run" where
  "list_indexes_handler e this =
     try_catch (list_indexes_try e this) (tool_error ''Error listing indexes: '')"

record run_saved_search_args =
  arg_name :: string
  override_earliest_time :: "string option"
  override_latest_time :: "string option"

definition run_saved_search_try ::
  "env \<Rightarrow> run_saved_search_args \<Rightarrow> SplunkMCPServer \<Rightarrow> jsval promise run" where
  "run_saved_search_try e a this =
     (if splunkService this = None then (Rejected configure_first, this, [])
      else
        await (runSavedSearch e (arg_name a) (override_earliest_time a) (override_latest_time a) this)
          (\<lambda>results this.
             (Resolved (tool_result (JSON_stringify e results)), this, [])))"

definition run_saved_search_handler ::
  "env \<Rightarrow> run_saved_search_args \<Rightarrow> SplunkMCPServer \<Rightarrow> jsval promise run" where
  "run_saved_search_handler e a this =
     try_catch (run_saved_search_try e a this) (tool_error ''Error running saved search: '')"

text \<open>The options \<open>runSavedSearch\<close> dispatches with: the overrides that are truthy.\<close>

definition overrides :: "run_saved_search_args \<Rightarrow> dispatch_times" where
  "overrides a =
     \<lparr>earliest_time = when_truthy (override_earliest_time a),
      latest_time = when_truthy (override_latest_time a)\<rparr>"

text \<open>
  The run of run_saved_search in which \<open>dispatch\<close> calls back with neither an error nor
  a job, so that its callback throws.
\<close>

definition dispatched_without_job :: "env \<Rightarrow> run_saved_search_args \<Rightarrow> SplunkMCPServer \<Rightarrow> bool" where
  "dispatched_without_job e a this =
     (case splunkService this of
        None \<Rightarrow> False
      | Some svc \<Rightarrow>
          (case savedSearches_fetch e svc of
             (None, Some c) \<Rightarrow>
               (case item c (arg_name a) of
                  None \<Rightarrow> False
                | Some s \<Rightarrow>
                    dispatch_call s (overrides a) = (None, None))
           | _ \<Rightarrow> False))"

text \<open>\<open>{contents: [{uri: u, text: t}]}\<close>: the result of reading a resource.\<close>

definition resource_result :: "string \<Rightarrow> jsval \<Rightarrow> jsval" where
  "resource_result u t = JObject [(''contents'', JArray [JObject [(''uri'', JString u), (''text'', t)]])]"

definition connection_status :: "SplunkMCPServer \<Rightarrow> jsval promise run" where
  "connection_status this =
     (Resolved
        (resource_result ''splunk://status''
           (JString (if splunkService this \<noteq> None then ''Connected'' else ''Not connected''))),
      this, [])"

definition server_info_try :: "env \<Rightarrow> SplunkMCPServer \<Rightarrow> jsval promise run" where
  "server_info_try e this =
     (if splunkService this = None then (Rejected not_initialized, this, [])
      else
        await (getServerInfo e this) (\<lambda>info this.
          (Resolved (resource_result ''splunk://info'' (JSON_stringify e info)), this, [])))"

definition server_info_error :: "js_error \<Rightarrow> jsval" where
  "server_info_error err =
     resource_result ''splunk://info'' (JString (''Error getting server info: '' @ error_text err))"

definition server_info :: "env \<Rightarrow> SplunkMCPServer \<Rightarrow> jsval promise run" where
  "server_info e this = try_catch (server_info_try e this) server_info_error"

section \<open>The declared parameter schemas\<close>

text \<open>
  The schemas are written with zod and handed to \<open>McpServer.tool\<close> together with the
  handler. A schema is modelled as the parser it stands for: from the value found under
  a key (\<open>undefined\<close> when the key is missing) to the parsed value or the codes of the
  issues found. \<open>z.number()\<close> accepts any number; \<open>.min(a)\<close> and \<open>.max(b)\<close> add
  inclusive bounds; \<open>.optional()\<close> accepts \<open>undefined\<close>; \<open>.default(d)\<close> parses
  \<open>d\<close> in place of \<open>undefined\<close>; \<open>z.object\<close> accepts an object only, parses every
  key of the shape, ignores the others and gathers the issues. An issue has the path of
  the value it is about (empty for the arguments value itself) and a code.
\<close>

datatype issue_code = invalid_type | too_small | too_big | invalid_enum_value

type_synonym issue = "string list \<times> issue_code"

type_synonym 'a zod = "jsval \<Rightarrow> issue_code list + 'a"

datatype check = Min rat | Max rat

fun violated :: "check \<Rightarrow> rat \<Rightarrow> issue_code list" where
  "violated (Min a) n = (if n < a then [too_small] else [])"
| "violated (Max b) n = (if b < n then [too_big] else [])"

definition z_string :: "string zod" where
  "z_string v = (case v of JString s \<Rightarrow> Inr s | _ \<Rightarrow> Inl [invalid_type])"

definition z_number :: "check list \<Rightarrow> rat zod" where
  "z_number checks v =
     (case v of
        JNumber n \<Rightarrow>
          (case concat (map (\<lambda>c. violated c n) checks) of [] \<Rightarrow> Inr n | cs \<Rightarrow> Inl cs)
      | _ \<Rightarrow> Inl [invalid_type])"

definition z_enum :: "string list \<Rightarrow> string zod" where
  "z_enum values v =
     (case v of
        JString s \<Rightarrow> if s \<in> set values then Inr s else Inl [invalid_enum_value]
      | _ \<Rightarrow> Inl [invalid_type])"

definition z_optional :: "'a zod \<Rightarrow> 'a option zod" where
  "z_optional z v = (if v = JUndefined then Inr None else map_sum id Some (z v))"

definition z_default :: "'a zod \<Rightarrow> jsval \<Rightarrow> 'a zod" where
  "z_default z d v = (if v = JUndefined then z d else z v)"

definition at_key :: "string \<Rightarrow> 'a zod \<Rightarrow> jsval \<Rightarrow> issue list + 'a" where
  "at_key k z raw = map_sum (map (Pair [k])) id (z (get raw k))"

fun issues :: "issue list + 'a \<Rightarrow> issue list" where
  "issues (Inl is) = is"
| "issues (Inr _) = []"

fun both :: "issue list + 'a \<Rightarrow> issue list + 'b \<Rightarrow> issue list + ('a \<times> 'b)" where
  "both (Inr a) (Inr b) = Inr (a, b)"
| "both a b = Inl (issues a @ issues b)"

definition z_object :: "(jsval \<Rightarrow> issue list + 'a) \<Rightarrow> jsval \<Rightarrow> issue list + 'a" where
  "z_object shape raw = (case raw of JObject kvs \<Rightarrow> shape raw | _ \<Rightarrow> Inl [([], invalid_type)])"

definition search_shape :: "jsval \<Rightarrow> issue list + search_args" where
  "search_shape raw =
     map_sum id
       (\<lambda>(q, et, lt, mc, om).
          \<lparr>query = q, arg_earliest_time = et, arg_latest_time = lt, max_count = mc,
           output_mode = om\<rparr>)
       (both (at_key ''query'' z_string raw)
       (both (at_key ''earliest_time'' (z_optional z_string) raw)
       (both (at_key ''latest_time'' (z_optional z_string) raw)
       (both (at_key ''max_count'' (z_default (z_number [Min 1, Max 10000]) (JNumber 100)) raw)
             (at_key ''output_mode''
                (z_default (z_enum [''json'', ''csv'', ''xml'']) (JString ''json'')) raw)))))"

definition search_schema :: "jsval \<Rightarrow> issue list + search_args" where
  "search_schema = z_object search_shape"

definition configure_shape :: "jsval \<Rightarrow> issue list + SplunkConfig" where
  "configure_shape raw =
     map_sum id
       (\<lambda>(h, p, u, pw, sc).
          \<lparr>host = h, port = p, username = u, password = pw, scheme = sc\<rparr>)
       (both (at_key ''host'' z_string raw)
       (both (at_key ''port'' (z_default (z_number []) (JNumber 8089)) raw)
       (both (at_key ''username'' z_string raw)
       (both (at_key ''password'' z_string raw)
             (at_key ''scheme'' (z_default (z_enum [''http'', ''https'']) (JString ''https'')) raw)))))"

definition configure_schema :: "jsval \<Rightarrow> issue list + SplunkConfig" where
  "configure_schema = z_object configure_shape"

definition run_saved_search_shape :: "jsval \<Rightarrow> issue list + run_saved_search_args" where
  "run_saved_search_shape raw =
     map_sum id
       (\<lambda>(n, et, lt).
          \<lparr>arg_name = n, override_earliest_time = et, override_latest_time = lt\<rparr>)
       (both (at_key ''name'' z_string raw)
       (both (at_key ''earliest_time'' (z_optional z_string) raw)
             (at_key ''latest_time'' (z_optional z_string) raw)))"

definition run_saved_search_schema :: "jsval \<Rightarrow> issue list + run_saved_search_args" where
  "run_saved_search_schema = z_object run_saved_search_shape"

text \<open>The empty shape \<open>{}\<close> of list_saved_searches and list_indexes.\<close>

definition empty_schema :: "jsval \<Rightarrow> issue list + unit" where
  "empty_schema = z_object (\<lambda>raw. Inr ())"

text \<open>
  \<open>server.tool(name, shape, handler)\<close>: the arguments of an invocation are parsed
  against \<open>z.object(shape)\<close>; the handler is called with the parsed value, and is not
  called at all when parsing finds an issue. The invocation is then answered with the
  error the library raises for invalid arguments, whose message is the text of the
  issues found (\<open>Inl\<close> of the issues below).
\<close>

definition server_tool ::
  "(jsval \<Rightarrow> issue list + 'a) \<Rightarrow> ('a \<Rightarrow> SplunkMCPServer \<Rightarrow> jsval promise run) \<Rightarrow>
   jsval \<Rightarrow> SplunkMCPServer \<Rightarrow> (issue list + jsval promise) run" where
  "server_tool schema handler arguments this =
     (case schema arguments of
        Inl is \<Rightarrow> (Inl is, this, [])
      | Inr a \<Rightarrow> (case handler a this of (p, this', sent) \<Rightarrow> (Inr p, this', sent)))"

definition search_tool :: "env \<Rightarrow> jsval \<Rightarrow> SplunkMCPServer \<Rightarrow> (issue list + jsval promise) run" where
  "search_tool e = server_tool search_schema (search_handler e)"

definition configure_tool :: "env \<Rightarrow> jsval \<Rightarrow> SplunkMCPServer \<Rightarrow> (issue list + jsval promise) run" where
  "configure_tool e = server_tool configure_schema (configure_handler e)"

definition list_saved_searches_tool ::
  "env \<Rightarrow> jsval \<Rightarrow> SplunkMCPServer \<Rightarrow> (issue list + jsval promise) run" where
  "list_saved_searches_tool e = server_tool empty_schema (\<lambda>_. list_saved_searches_handler e)"

definition list_indexes_tool ::
  "env \<Rightarrow> jsval \<Rightarrow> SplunkMCPServer \<Rightarrow> (issue list + jsval promise) run" where
  "list_indexes_tool e = server_tool empty_schema (\<lambda>_. list_indexes_handler e)"

definition run_saved_search_tool ::
  "env \<Rightarrow> jsval \<Rightarrow> SplunkMCPServer \<Rightarrow> (issue list + jsval promise) run" where
  "run_saved_search_tool e = server_tool run_saved_search_schema (run_saved_search_handler e)"

text \<open>The error indicator of a response: its property \<open>isError\<close> is \<open>true\<close>.\<close>

definition error_indicator :: "jsval \<Rightarrow> bool" where
  "error_indicator r = (get r ''isError'' = JBoolean True)"

text \<open>
  An invocation of a tool is answered with an error when its arguments were rejected or
  when the response of the handler has the error indicator.
\<close>

definition error_reply :: "issue list + jsval promise \<Rightarrow> bool" where
  "error_reply reply =
     (case reply of
        Inl iss \<Rightarrow> True
      | Inr (Resolved r) \<Rightarrow> error_indicator r
      | Inr _ \<Rightarrow> False)"

section \<open>Concrete inputs\<close>

text \<open>
  A Splunk server that accepts every login and answers every request, after the mock
  service of the repository's test file. The text of a number is given for the numbers
  that occur below.
\<close>

definition mock_job :: SearchJob where
  "mock_job =
     \<lparr>track = None,
      results = (\<lambda>m. (None, JArray [JObject [(''host'', JString ''server1'')]]))\<rparr>"

definition daily_report :: SavedSearch where
  "daily_report =
     \<lparr>name = ''Daily Error Report'',
      properties =
        \<lparr>search = ''index=main level=ERROR | stats count by source'',
         description = ''Daily error summary'',
         dispatch = Some \<lparr>earliest_time = Some ''-24h'', latest_time = Some ''now''\<rparr>\<rparr>,
      dispatch_call = (\<lambda>opts. (None, Some mock_job))\<rparr>"

definition failed_logins :: SavedSearch where
  "failed_logins =
     \<lparr>name = ''Failed Logins'',
      properties =
        \<lparr>search = ''search index=main action=failure'',
         description = ''Failed login attempts'',
         dispatch = None\<rparr>,
      dispatch_call = (\<lambda>opts. (None, Some mock_job))\<rparr>"

definition main_index :: Index where
  "main_index =
     \<lparr>index_name = ''main'',
      index_properties =
        \<lparr>totalEventCount = 1000000, currentDBSizeMB = 1024, maxDataSize = ''auto''\<rparr>\<rparr>"

definition internal_index :: Index where
  "internal_index =
     \<lparr>index_name = ''_internal'',
      index_properties =
        \<lparr>totalEventCount = 500000, currentDBSizeMB = 512, maxDataSize = ''auto''\<rparr>\<rparr>"

definition mock_env :: env where
  "mock_env =
     \<lparr>String_of_number =
        (\<lambda>n. if n = 8089 then ''8089'' else if n = 1000000 then ''1000000''
             else if n = 1024 then ''1024'' else if n = 500000 then ''500000''
             else if n = 512 then ''512'' else ''0''),
      login = (\<lambda>svc. None),
      search_call = (\<lambda>svc q p. (None, Some mock_job)),
      savedSearches_fetch = (\<lambda>svc. (None, Some \<lparr>list = [daily_report, failed_logins]\<rparr>)),
      indexes_fetch = (\<lambda>svc. (None, Some \<lparr>index_list = [main_index, internal_index]\<rparr>)),
      serverInfo =
        (\<lambda>svc. (None,
           Some \<lparr>info_properties =
                  \<lparr>info_version = ''8.2.0'', build = ''12345'', serverName = ''test-splunk'',
                   licenseState = ''OK'', mode = ''normal''\<rparr>\<rparr>))\<rparr>"

text \<open>The same server refusing the login.\<close>

definition refusing_env :: env where
  "refusing_env = mock_env\<lparr>login := (\<lambda>svc. Some (Error ''Login failed''))\<rparr>"

definition localhost :: SplunkConfig where
  "localhost =
     \<lparr>host = ''localhost'', port = 8089, username = ''admin'', password = ''changeme'',
      scheme = ''https''\<rparr>"

definition unset :: SplunkMCPServer where
  "unset = \<lparr>splunkService = None\<rparr>"

definition ready :: SplunkMCPServer where
  "ready = \<lparr>splunkService = Some (new_Service localhost)\<rparr>"

definition head10 :: search_args where
  "head10 =
     \<lparr>query = ''index=_internal | head 10'', arg_earliest_time = Some ''-1h'',
      arg_latest_time = Some ''now'', max_count = 10, output_mode = ''json''\<rparr>"

definition run_daily :: run_saved_search_args where
  "run_daily =
     \<lparr>arg_name = ''Daily Error Report'', override_earliest_time = None,
      override_latest_time = None\<rparr>"

definition by_name :: jsval where
  "by_name = JObject [(''name'', JString ''Daily Error Report'')]"

definition too_many :: jsval where
  "too_many = JObject [(''query'', JString ''index=main''), (''max_count'', JNumber 15000)]"

definition weekly :: run_saved_search_args where
  "weekly =
     \<lparr>arg_name = ''Weekly Report'', override_earliest_time = Some ''-7d'',
      override_latest_time = None\<rparr>"

text \<open>A server whose fetches call back with neither an error nor a collection.\<close>

definition silent_env :: env where
  "silent_env =
     mock_env\<lparr>savedSearches_fetch := (\<lambda>svc. (None, None)),
              indexes_fetch := (\<lambda>svc. (None, None))\<rparr>"

definition already :: search_args where
  "already = head10\<lparr>query := ''search index=main error''\<rparr>"

definition as_csv :: jsval where
  "as_csv = JObject [(''query'', JString ''index=main | head 5''), (''output_mode'', JString ''csv'')]"

definition no_mode :: jsval where
  "no_mode = JObject [(''query'', JString ''index=main | head 5'')]"

definition csv_args :: search_args where
  "csv_args =
     \<lparr>query = ''index=main | head 5'', arg_earliest_time = None, arg_latest_time = None,
      max_count = 100, output_mode = ''csv''\<rparr>"

definition default_args :: search_args where
  "default_args = csv_args\<lparr>output_mode := ''json''\<rparr>"

text \<open>
  What the SDK passes as \<open>err\<close> for a failed request is a plain object, not an
  \<open>Error\<close>; the three servers below answer a search with such an error at the
  submission, at the tracking of the job and at the fetch of its results.
\<close>

definition plain_error :: js_error where
  "plain_error = NonError ''[object Object]''"

definition stuck_job :: SearchJob where
  "stuck_job = mock_job\<lparr>track := Some plain_error\<rparr>"

definition empty_job :: SearchJob where
  "empty_job = mock_job\<lparr>results := (\<lambda>m. (Some plain_error, JUndefined))\<rparr>"

definition serving :: "js_error option \<times> SearchJob option \<Rightarrow> env" where
  "serving answer = mock_env\<lparr>search_call := (\<lambda>svc q p. answer)\<rparr>"

definition no_arguments :: jsval where
  "no_arguments = JObject []"

text \<open>
  A server that answers every first request with an error, a saved search whose
  \<open>dispatch\<close> is answered as given, and a server that lists one saved search.
\<close>

definition failing_env :: env where
  "failing_env =
     mock_env\<lparr>login := (\<lambda>svc. Some plain_error),
              search_call := (\<lambda>svc q p. (Some plain_error, None)),
              savedSearches_fetch := (\<lambda>svc. (Some plain_error, None)),
              indexes_fetch := (\<lambda>svc. (Some plain_error, None)),
              serverInfo := (\<lambda>svc. (Some plain_error, None))\<rparr>"

definition report_with :: "js_error option \<times> SearchJob option \<Rightarrow> SavedSearch" where
  "report_with answer = daily_report\<lparr>dispatch_call := (\<lambda>opts. answer)\<rparr>"

definition listing :: "SavedSearch \<Rightarrow> env" where
  "listing s = mock_env\<lparr>savedSearches_fetch := (\<lambda>svc. (None, Some \<lparr>list = [s]\<rparr>))\<rparr>"

section \<open>Facts about the combinators\<close>

lemma try_catch_Rejected [simp]:
  "try_catch (Rejected err, this, sent) h = (Resolved (h err), this, sent)"
  by (simp add: try_catch_def)

lemma try_catch_Resolved [simp]: "try_catch (Resolved r, this, sent) h = (Resolved r, this, sent)"
  by (simp add: try_catch_def)

lemma try_catch_Unsettled [simp]:
  "try_catch (Unsettled err, this, sent) h = (Unsettled err, this, sent)"
  by (simp add: try_catch_def)

lemma await_Resolved [simp]:
  "await (Resolved a, this, sent) k =
     (case k a this of (p, this', sent') \<Rightarrow> (p, this', sent @ sent'))"
  by (simp add: await_def)

lemma await_Rejected [simp]: "await (Rejected err, this, sent) k = (Rejected err, this, sent)"
  by (simp add: await_def)

lemma await_Unsettled [simp]: "await (Unsettled err, this, sent) k = (Unsettled err, this, sent)"
  by (simp add: await_def)

lemma issues_both [simp]: "issues (both x y) = issues x @ issues y"
  by (cases x; cases y) simp_all

lemma both_Inr_iff: "both x y = Inr p \<longleftrightarrow> (\<exists>u v. x = Inr u \<and> y = Inr v \<and> p = (u, v))"
  by (cases x; cases y) auto

lemma both_Inl_right [simp]: "both x (Inl is) = Inl (issues x @ is)"
  by (cases x) simp_all

lemma both_Inl_left [simp]: "both (Inl is) y = Inl (is @ issues y)"
  by simp

lemma server_tool_Inl [simp]:
  "schema arguments = Inl is \<Longrightarrow> server_tool schema handler arguments this = (Inl is, this, [])"
  by (simp add: server_tool_def)

lemma try_catch_sent [simp]: "snd (snd (try_catch body h)) = snd (snd body)"
  by (cases body rule: prod_cases3; cases "fst body") (auto simp add: try_catch_def)

lemma try_catch_this [simp]: "fst (snd (try_catch body h)) = fst (snd body)"
  by (cases body rule: prod_cases3; cases "fst body") (auto simp add: try_catch_def)

lemma await_sent: "\<exists>rest. snd (snd (await r k)) = snd (snd r) @ rest"
  by (cases r rule: prod_cases3; cases "fst r") (auto simp add: await_def split: prod.splits)

lemma z_object_JObject [simp]: "z_object shape (JObject kvs) = shape (JObject kvs)"
  by (simp add: z_object_def)

lemma z_object_Inr_iff:
  "z_object shape raw = Inr a \<longleftrightarrow> (\<exists>kvs. raw = JObject kvs) \<and> shape raw = Inr a"
  by (cases raw) (simp_all add: z_object_def)

lemma map_sum_id_Inr_iff: "map_sum id f z = Inr a \<longleftrightarrow> (\<exists>p. z = Inr p \<and> a = f p)"
  by (cases z) auto

lemma server_tool_Inr:
  "schema arguments = Inr a \<Longrightarrow>
   server_tool schema handler arguments this =
     (Inr (fst (handler a this)), fst (snd (handler a this)), snd (snd (handler a this)))"
  by (simp add: server_tool_def split: prod.splits)

lemma try_catch_not_Rejected: "fst (try_catch body h) \<noteq> Rejected x"
  by (cases body rule: prod_cases3; cases "fst body") (auto simp add: try_catch_def)

lemma try_catch_caught:
  "fst body = Rejected err \<Longrightarrow> fst (try_catch body h) = Resolved (h err)"
  by (cases body rule: prod_cases3) (auto simp add: try_catch_def)

lemma server_tool_Inr_eq:
  "schema arguments = Inr a \<Longrightarrow> handler a this = (p, this', sent) \<Longrightarrow>
   server_tool schema handler arguments this = (Inr p, this', sent)"
  by (simp add: server_tool_def)

lemma try_catch_answers:
  "(\<exists>v. fst body = Resolved v) \<or> (\<exists>err. fst body = Rejected err) \<Longrightarrow>
   \<exists>v. fst (try_catch body h) = Resolved v"
  by (cases body rule: prod_cases3) auto

section \<open>Facts about the client methods and the schemas\<close>

lemma JSON_stringify_undefined [simp]: "JSON_stringify e JUndefined = JUndefined"
  by (simp add: JSON_stringify_def)

lemma find_None_names: "n \<notin> set (map name xs) \<Longrightarrow> find (\<lambda>s. name s = n) xs = None"
  by (induction xs) auto

lemma runSearch_sent:
  "splunkService this = Some svc \<Longrightarrow>
   snd (snd (runSearch e p this)) = [Call_search svc (sp_search p) p]"
  by (simp add: runSearch_def split: prod.splits option.splits)

lemma search_handler_sent:
  assumes "splunkService this = Some svc"
    and "search_call e svc (search_text (query a)) (make_searchParams a) = (None, Some job)"
    and "track job = None"
  shows "snd (snd (search_handler e a this)) =
           [Call_search svc (search_text (query a)) (make_searchParams a), Call_track,
            Call_results (output_mode a)]"
proof -
  have "sp_search (make_searchParams a) = search_text (query a)"
    by (simp add: make_searchParams_def)
  then show ?thesis
    using assms
    by (simp add: search_handler_def search_try_def runSearch_def getSearchResults_def
        split: prod.splits option.splits)
qed

lemma search_schema_Inr:
  assumes "search_schema raw = Inr a"
  shows "at_key ''output_mode'' (z_default (z_enum [''json'', ''csv'', ''xml'']) (JString ''json'')) raw
           = Inr (output_mode a)"
  using assms
  by (auto simp add: search_schema_def search_shape_def z_object_Inr_iff both_Inr_iff
      map_sum_id_Inr_iff)

lemma search_schema_as_csv: "search_schema as_csv = Inr csv_args"
  by (simp add: search_schema_def search_shape_def as_csv_def csv_args_def at_key_def
      z_string_def z_optional_def z_default_def z_number_def z_enum_def)

lemma search_schema_no_mode: "search_schema no_mode = Inr default_args"
  by (simp add: search_schema_def search_shape_def no_mode_def default_args_def csv_args_def
      at_key_def z_string_def z_optional_def z_default_def z_number_def z_enum_def)

lemma search_handler_frame:
  "fst (snd (search_handler e a this)) = this \<and> distinct (snd (snd (search_handler e a this)))"
  by (auto simp add: search_handler_def search_try_def runSearch_def getSearchResults_def
      split: prod.splits option.splits)

lemma list_saved_searches_handler_frame:
  "fst (snd (list_saved_searches_handler e this)) = this
   \<and> distinct (snd (snd (list_saved_searches_handler e this)))"
  by (auto simp add: list_saved_searches_handler_def list_saved_searches_try_def
      getSavedSearches_def split: prod.splits option.splits)

lemma list_indexes_handler_frame:
  "fst (snd (list_indexes_handler e this)) = this
   \<and> distinct (snd (snd (list_indexes_handler e this)))"
  by (auto simp add: list_indexes_handler_def list_indexes_try_def getIndexes_def
      split: prod.splits option.splits)

lemma run_saved_search_handler_frame:
  "fst (snd (run_saved_search_handler e a this)) = this
   \<and> distinct (snd (snd (run_saved_search_handler e a this)))"
  by (auto simp add: run_saved_search_handler_def run_saved_search_try_def runSavedSearch_def
      Let_def split: prod.splits option.splits)

lemma server_info_frame:
  "fst (snd (server_info e this)) = this \<and> distinct (snd (snd (server_info e this)))"
  by (auto simp add: server_info_def server_info_try_def getServerInfo_def Let_def
      split: prod.splits option.splits)

lemma connection_status_frame:
  "fst (snd (connection_status this)) = this \<and> snd (snd (connection_status this)) = []"
  by (simp add: connection_status_def)

lemma search_handler_failures:
  assumes "splunkService this = Some svc"
  shows "search_call e svc (search_text (query a)) (make_searchParams a) = (Some err, j) \<Longrightarrow>
           search_handler e a this =
             (Resolved (tool_error ''Error executing search: '' err), this,
              [Call_search svc (search_text (query a)) (make_searchParams a)])"
    and "search_call e svc (search_text (query a)) (make_searchParams a) = (None, Some job) \<Longrightarrow>
         track job = Some err \<Longrightarrow>
           search_handler e a this =
             (Resolved (tool_error ''Error executing search: '' err), this,
              [Call_search svc (search_text (query a)) (make_searchParams a), Call_track])"
    and "search_call e svc (search_text (query a)) (make_searchParams a) = (None, Some job) \<Longrightarrow>
         track job = None \<Longrightarrow> results job (output_mode a) = (Some err, r) \<Longrightarrow>
           search_handler e a this =
             (Resolved (tool_error ''Error executing search: '' err), this,
              [Call_search svc (search_text (query a)) (make_searchParams a), Call_track,
               Call_results (output_mode a)])"
proof -
  have params: "sp_search (make_searchParams a) = search_text (query a)"
    by (simp add: make_searchParams_def)
  show "search_call e svc (search_text (query a)) (make_searchParams a) = (Some err, j) \<Longrightarrow>
           search_handler e a this =
             (Resolved (tool_error ''Error executing search: '' err), this,
              [Call_search svc (search_text (query a)) (make_searchParams a)])"
    using assms params by (simp add: search_handler_def search_try_def runSearch_def)
  show "search_call e svc (search_text (query a)) (make_searchParams a) = (None, Some job) \<Longrightarrow>
         track job = Some err \<Longrightarrow>
           search_handler e a this =
             (Resolved (tool_error ''Error executing search: '' err), this,
              [Call_search svc (search_text (query a)) (make_searchParams a), Call_track])"
    using assms params
    by (simp add: search_handler_def search_try_def runSearch_def getSearchResults_def)
  show "search_call e svc (search_text (query a)) (make_searchParams a) = (None, Some job) \<Longrightarrow>
         track job = None \<Longrightarrow> results job (output_mode a) = (Some err, r) \<Longrightarrow>
           search_handler e a this =
             (Resolved (tool_error ''Error executing search: '' err), this,
              [Call_search svc (search_text (query a)) (make_searchParams a), Call_track,
               Call_results (output_mode a)])"
    using assms params
    by (simp add: search_handler_def search_try_def runSearch_def getSearchResults_def)
qed

lemma configure_handler_refused:
  "login e (new_Service c) = Some err \<Longrightarrow>
   configure_handler e c this =
     (Resolved (tool_error ''Failed to connect to Splunk: '' err),
      this\<lparr>splunkService := None\<rparr>, [Call_login (new_Service c)])"
  by (simp add: configure_handler_def configure_try_def configureSplunkConnection_def
      assign_Service_def login_callback_def Let_def)

lemma schemas_too_many:
  "search_schema too_many = Inl [([''max_count''], too_big)]"
  "configure_schema too_many =
     Inl [([''host''], invalid_type), ([''username''], invalid_type),
          ([''password''], invalid_type)]"
  "run_saved_search_schema too_many = Inl [([''name''], invalid_type)]"
  by (simp_all add: search_schema_def configure_schema_def run_saved_search_schema_def
      search_shape_def configure_shape_def run_saved_search_shape_def
      too_many_def at_key_def z_string_def z_optional_def z_default_def z_number_def z_enum_def)

lemma run_saved_search_schema_by_name: "run_saved_search_schema by_name = Inr run_daily"
  by (simp add: run_saved_search_schema_def run_saved_search_shape_def by_name_def run_daily_def
      at_key_def z_string_def z_optional_def)

lemma search_handler_answers: "\<exists>v. fst (search_handler e a this) = Resolved v"
  unfolding search_handler_def
  by (rule try_catch_answers)
    (auto simp add: search_try_def runSearch_def getSearchResults_def
      split: prod.splits option.splits)

lemma configure_handler_answers: "\<exists>v. fst (configure_handler e c this) = Resolved v"
  unfolding configure_handler_def
  by (rule try_catch_answers)
    (auto simp add: configure_try_def configureSplunkConnection_def login_callback_def Let_def
      split: prod.splits option.splits)

lemma list_saved_searches_handler_answers:
  "\<exists>v. fst (list_saved_searches_handler e this) = Resolved v"
  unfolding list_saved_searches_handler_def
  by (rule try_catch_answers)
    (auto simp add: list_saved_searches_try_def getSavedSearches_def
      split: prod.splits option.splits)

lemma list_indexes_handler_answers: "\<exists>v. fst (list_indexes_handler e this) = Resolved v"
  unfolding list_indexes_handler_def
  by (rule try_catch_answers)
    (auto simp add: list_indexes_try_def getIndexes_def split: prod.splits option.splits)

lemma server_info_answers: "\<exists>v. fst (server_info e this) = Resolved v"
  unfolding server_info_def
  by (rule try_catch_answers)
    (auto simp add: server_info_try_def getServerInfo_def Let_def
      split: prod.splits option.splits)

lemma run_saved_search_handler_answers:
  "\<not> dispatched_without_job e a this \<Longrightarrow>
   \<exists>v. fst (run_saved_search_handler e a this) = Resolved v"
  unfolding run_saved_search_handler_def
  by (rule try_catch_answers)
    (auto simp add: run_saved_search_try_def runSavedSearch_def dispatched_without_job_def overrides_def Let_def
      split: prod.splits option.splits)

lemma connection_status_answers: "\<exists>v. fst (connection_status this) = Resolved v"
  by (simp add: connection_status_def)

lemma handlers_unset:
  assumes "splunkService this = None"
  shows "search_handler e a this =
           (Resolved (tool_error ''Error executing search: '' configure_first), this, [])"
    and "list_saved_searches_handler e this =
           (Resolved (tool_error ''Error listing saved searches: '' configure_first), this, [])"
    and "list_indexes_handler e this =
           (Resolved (tool_error ''Error listing indexes: '' configure_first), this, [])"
    and "run_saved_search_handler e r this =
           (Resolved (tool_error ''Error running saved search: '' configure_first), this, [])"
    and "server_info e this = (Resolved (server_info_error not_initialized), this, [])"
  using assms
  by (simp_all add: search_handler_def search_try_def list_saved_searches_handler_def
      list_saved_searches_try_def list_indexes_handler_def list_indexes_try_def
      run_saved_search_handler_def run_saved_search_try_def server_info_def server_info_try_def)

lemma search_handler_without_job:
  assumes "splunkService this = Some svc"
    and "search_call e svc (search_text (query a)) (make_searchParams a) = (None, None)"
  shows "search_handler e a this =
           (Resolved (tool_error ''Error executing search: '' (TypeError_undefined ''track'')), this,
            [Call_search svc (search_text (query a)) (make_searchParams a)])"
proof -
  have "sp_search (make_searchParams a) = search_text (query a)"
    by (simp add: make_searchParams_def)
  then show ?thesis
    using assms by (simp add: search_handler_def search_try_def runSearch_def getSearchResults_def)
qed

lemma list_saved_searches_handler_failure:
  assumes "splunkService this = Some svc" and "savedSearches_fetch e svc = (Some err, x)"
  shows "list_saved_searches_handler e this =
           (Resolved (tool_error ''Error listing saved searches: '' err), this,
            [Call_savedSearches_fetch svc])"
  using assms
  by (simp add: list_saved_searches_handler_def list_saved_searches_try_def getSavedSearches_def)

lemma list_indexes_handler_failure:
  assumes "splunkService this = Some svc" and "indexes_fetch e svc = (Some err, x)"
  shows "list_indexes_handler e this =
           (Resolved (tool_error ''Error listing indexes: '' err), this, [Call_indexes_fetch svc])"
  using assms by (simp add: list_indexes_handler_def list_indexes_try_def getIndexes_def)

lemma server_info_failure:
  assumes "splunkService this = Some svc" and "serverInfo e svc = (Some err, x)"
  shows "server_info e this = (Resolved (server_info_error err), this, [Call_serverInfo svc])"
  using assms by (simp add: server_info_def server_info_try_def getServerInfo_def)

lemma run_saved_search_handler_fetch_failure:
  assumes "splunkService this = Some svc" and "savedSearches_fetch e svc = (Some err, x)"
  shows "run_saved_search_handler e a this =
           (Resolved (tool_error ''Error running saved search: '' err), this,
            [Call_savedSearches_fetch svc])"
  using assms
  by (simp add: run_saved_search_handler_def run_saved_search_try_def runSavedSearch_def)

lemma run_saved_search_handler_not_found:
  assumes "splunkService this = Some svc" and "savedSearches_fetch e svc = (None, coll)"
    and "(case coll of None \<Rightarrow> None | Some c \<Rightarrow> item c (arg_name a)) = None"
  shows "run_saved_search_handler e a this =
           (Resolved (tool_error ''Error running saved search: '' (not_found (arg_name a))), this,
            [Call_savedSearches_fetch svc])"
  using assms
  by (simp add: run_saved_search_handler_def run_saved_search_try_def runSavedSearch_def)

lemma run_saved_search_handler_failures:
  assumes "splunkService this = Some svc" and "savedSearches_fetch e svc = (None, Some c)"
    and "item c (arg_name a) = Some s"
  shows "dispatch_call s (overrides a) = (Some err, j) \<Longrightarrow>
           run_saved_search_handler e a this =
             (Resolved (tool_error ''Error running saved search: '' err), this,
              [Call_savedSearches_fetch svc, Call_dispatch (name s) (overrides a)])"
    and "dispatch_call s (overrides a) = (None, Some job) \<Longrightarrow> track job = Some err \<Longrightarrow>
           run_saved_search_handler e a this =
             (Resolved (tool_error ''Error running saved search: '' err), this,
              [Call_savedSearches_fetch svc, Call_dispatch (name s) (overrides a), Call_track])"
    and "dispatch_call s (overrides a) = (None, Some job) \<Longrightarrow> track job = None \<Longrightarrow>
         results job ''json'' = (Some err, res) \<Longrightarrow>
           run_saved_search_handler e a this =
             (Resolved (tool_error ''Error running saved search: '' err), this,
              [Call_savedSearches_fetch svc, Call_dispatch (name s) (overrides a), Call_track,
               Call_results ''json''])"
  using assms
  by (simp_all add: run_saved_search_handler_def run_saved_search_try_def runSavedSearch_def
      overrides_def Let_def)

lemma both_not_empty: "x \<noteq> Inl [] \<Longrightarrow> y \<noteq> Inl [] \<Longrightarrow> both x y \<noteq> Inl []"
  by (cases x; cases y) auto

lemma map_sum_id_not_empty: "x \<noteq> Inl [] \<Longrightarrow> map_sum id f x \<noteq> Inl []"
  by (cases x) auto

lemma at_key_not_empty: "z (get raw k) \<noteq> Inl [] \<Longrightarrow> at_key k z raw \<noteq> Inl []"
  by (cases "z (get raw k)") (auto simp add: at_key_def)

lemma z_string_not_empty: "z_string v \<noteq> Inl []"
  by (simp add: z_string_def split: jsval.splits)

lemma z_number_not_empty: "z_number checks v \<noteq> Inl []"
  by (simp add: z_number_def split: jsval.splits list.splits)

lemma z_enum_not_empty: "z_enum values v \<noteq> Inl []"
  by (simp add: z_enum_def split: jsval.splits)

lemma z_optional_not_empty: "(\<And>v. z v \<noteq> Inl []) \<Longrightarrow> z_optional z v \<noteq> Inl []"
  by (cases "z v") (auto simp add: z_optional_def)

lemma z_default_not_empty: "(\<And>v. z v \<noteq> Inl []) \<Longrightarrow> z_default z d v \<noteq> Inl []"
  by (simp add: z_default_def)

lemma z_object_not_empty: "(\<And>v. shape v \<noteq> Inl []) \<Longrightarrow> z_object shape raw \<noteq> Inl []"
  by (cases raw) (simp_all add: z_object_def)

lemmas z_not_empty =
  both_not_empty map_sum_id_not_empty at_key_not_empty z_string_not_empty z_number_not_empty
  z_enum_not_empty z_optional_not_empty z_default_not_empty z_object_not_empty

lemma schemas_not_empty:
  "search_schema raw \<noteq> Inl []"
  "configure_schema raw \<noteq> Inl []"
  "run_saved_search_schema raw \<noteq> Inl []"
  "empty_schema raw \<noteq> Inl []"
  unfolding search_schema_def configure_schema_def run_saved_search_schema_def empty_schema_def
    search_shape_def configure_shape_def run_saved_search_shape_def
  by (intro z_not_empty; simp)+

lemma empty_schema_JObject [simp]: "empty_schema (JObject kvs) = Inr ()"
  by (simp add: empty_schema_def)

lemma empty_schema_Inl_iff:
  "empty_schema raw = Inl iss \<longleftrightarrow> (\<forall>kvs. raw \<noteq> JObject kvs) \<and> iss = [([], invalid_type)]"
  by (cases raw) (auto simp add: empty_schema_def z_object_def)

lemma server_tool_rejects:
  "schema raw = Inl iss \<Longrightarrow>
   server_tool schema handler raw this = (Inl iss, this, [])
   \<and> error_reply (fst (server_tool schema handler raw this))"
  by (simp add: server_tool_def error_reply_def)

lemma ready_service: "splunkService ready = Some (new_Service localhost)"
  by (simp add: ready_def)

lemma failing_env_answers:
  "login failing_env svc = Some plain_error"
  "search_call failing_env svc q p = (Some plain_error, None)"
  "savedSearches_fetch failing_env svc = (Some plain_error, None)"
  "indexes_fetch failing_env svc = (Some plain_error, None)"
  "serverInfo failing_env svc = (Some plain_error, None)"
  by (simp_all add: failing_env_def)

lemma serving_answers: "search_call (serving answer) svc q p = answer"
  by (simp add: serving_def)

lemma jobs_fail:
  "track stuck_job = Some plain_error"
  "track empty_job = None"
  "results empty_job m = (Some plain_error, JUndefined)"
  by (simp_all add: stuck_job_def empty_job_def mock_job_def)

lemma listing_answers:
  "savedSearches_fetch (listing s) svc = (None, Some \<lparr>list = [s]\<rparr>)"
  by (simp add: listing_def)

lemma item_report_with:
  "item \<lparr>list = [report_with answer]\<rparr> (arg_name run_daily) = Some (report_with answer)"
  "dispatch_call (report_with answer) opts = answer"
  by (simp_all add: item_def report_with_def daily_report_def run_daily_def)

lemma item_weekly:
  "savedSearches_fetch mock_env svc = (None, Some \<lparr>list = [daily_report, failed_logins]\<rparr>)"
  "(case Some \<lparr>list = [daily_report, failed_logins]\<rparr> of None \<Rightarrow> None
    | Some cl \<Rightarrow> item cl (arg_name weekly)) = None"
  by (simp_all add: mock_env_def item_def weekly_def daily_report_def failed_logins_def)

lemma schemas_missing_arguments:
  "empty_schema JUndefined = Inl [([], invalid_type)]"
  by (simp add: empty_schema_def z_object_def)

lemma JSON_value_project_search:
  "JSON_value (project_search s) =
     Some (Json_object
             ([(''name'', Json_string (name s)),
               (''search'', Json_string (search (properties s))),
               (''description'', Json_string (description (properties s)))]
              @ when_defined ''earliest_time'' (Option.bind (dispatch (properties s)) earliest_time)
              @ when_defined ''latest_time'' (Option.bind (dispatch (properties s)) latest_time)))"
  by (simp add: project_search_def opt_string_def when_defined_def List.map_filter_simps
      split: option.splits)

lemma JSON_value_project_index:
  "JSON_value (project_index i) =
     Some (Json_object
             [(''name'', Json_string (index_name i)),
              (''totalEventCount'', Json_number (totalEventCount (index_properties i))),
              (''currentDBSizeMB'', Json_number (currentDBSizeMB (index_properties i))),
              (''maxDataSize'', Json_string (maxDataSize (index_properties i)))])"
  by (simp add: project_index_def List.map_filter_simps)

lemma JSON_stringify_JArray_map:
  assumes "\<And>x. JSON_value (f x) = Some (g x)"
  shows "JSON_stringify e (JArray (map f xs)) =
           JString (JSON_text (String_of_number e) (Json_array (map g xs)) 0)"
  using assms by (simp add: JSON_stringify_def comp_def)

section \<open>The claims\<close>

text \<open>
  C1. Each of the four data-access operations (search, list_saved_searches, list_indexes,
  run_saved_search), invoked while \<open>splunkService\<close> is null, returns the session-state
  error response (the text names the missing configuration, \<open>isError\<close> is true),
  sends no request to the SDK and leaves the state as it was. This is so for the handler
  on any arguments, and for the tool on any arguments its schema accepts (any object, for
  the two tools without parameters).
\<close>

theorem unset_session_fails_without_call:
  assumes "splunkService this = None"
  shows "search_handler e a this =
           (Resolved (tool_error ''Error executing search: '' configure_first), this, [])
       \<and> list_saved_searches_handler e this =
           (Resolved (tool_error ''Error listing saved searches: '' configure_first), this, [])
       \<and> list_indexes_handler e this =
           (Resolved (tool_error ''Error listing indexes: '' configure_first), this, [])
       \<and> run_saved_search_handler e r this =
           (Resolved (tool_error ''Error running saved search: '' configure_first), this, [])
       \<and> (search_schema raw = Inr a \<longrightarrow>
            search_tool e raw this =
              (Inr (Resolved (tool_error ''Error executing search: '' configure_first)), this, []))
       \<and> (raw = JObject kvs \<longrightarrow>
            list_saved_searches_tool e raw this =
              (Inr (Resolved (tool_error ''Error listing saved searches: '' configure_first)),
               this, []))
       \<and> (raw = JObject kvs \<longrightarrow>
            list_indexes_tool e raw this =
              (Inr (Resolved (tool_error ''Error listing indexes: '' configure_first)), this, []))
       \<and> (run_saved_search_schema raw = Inr r \<longrightarrow>
            run_saved_search_tool e raw this =
              (Inr (Resolved (tool_error ''Error running saved search: '' configure_first)), this, []))
       \<and> error_indicator (tool_error pfx configure_first)
       \<and> error_text configure_first =
           ''Splunk service not initialized. Please configure connection first.''"
proof -
  note handlers = handlers_unset(1-4) [OF assms]
  have msg: "error_indicator (tool_error pfx configure_first)
       \<and> error_text configure_first =
           ''Splunk service not initialized. Please configure connection first.''"
    by (simp add: error_indicator_def tool_error_def configure_first_def)
  show ?thesis
    using handlers msg
    by (simp add: search_tool_def list_saved_searches_tool_def list_indexes_tool_def
        run_saved_search_tool_def server_tool_Inr_eq)
qed

theorem unset_session_fails_without_call_witness:
  "splunkService unset = None
   \<and> search_handler mock_env head10 unset =
       (Resolved (tool_error ''Error executing search: '' configure_first), unset, [])
   \<and> list_saved_searches_handler mock_env unset =
       (Resolved (tool_error ''Error listing saved searches: '' configure_first), unset, [])
   \<and> list_indexes_handler mock_env unset =
       (Resolved (tool_error ''Error listing indexes: '' configure_first), unset, [])
   \<and> run_saved_search_handler mock_env run_daily unset =
       (Resolved (tool_error ''Error running saved search: '' configure_first), unset, [])
   \<and> search_schema no_mode = Inr default_args
   \<and> search_tool mock_env no_mode unset =
       (Inr (Resolved (tool_error ''Error executing search: '' configure_first)), unset, [])
   \<and> list_saved_searches_tool mock_env no_arguments unset =
       (Inr (Resolved (tool_error ''Error listing saved searches: '' configure_first)), unset, [])
   \<and> list_indexes_tool mock_env no_arguments unset =
       (Inr (Resolved (tool_error ''Error listing indexes: '' configure_first)), unset, [])
   \<and> run_saved_search_schema by_name = Inr run_daily
   \<and> run_saved_search_tool mock_env by_name unset =
       (Inr (Resolved (tool_error ''Error running saved search: '' configure_first)), unset, [])"
proof -
  have none: "splunkService unset = None"
    by (simp add: unset_def)
  show ?thesis
    using none search_schema_no_mode run_saved_search_schema_by_name
      unset_session_fails_without_call [OF none, of mock_env head10 run_daily]
      unset_session_fails_without_call [OF none, of mock_env default_args _ no_mode]
      unset_session_fails_without_call [OF none, of mock_env _ run_daily by_name]
      unset_session_fails_without_call [OF none, of mock_env _ _ no_arguments "[]"]
    by (simp add: no_arguments_def)
qed

text \<open>
  C2. The session moves Unset, Authenticating, Ready when the login succeeds and Unset,
  Authenticating, Unset when it fails. From any state, configure first puts the handle of
  the new service in place (replacing an existing one) and sends the login for it. When
  the login is accepted the handle stays set; when it is refused the handle is cleared,
  and a search invoked afterwards fails with the session-state error.
\<close>

theorem configure_state_machine:
  "splunkService (assign_Service c this) = Some (new_Service c)
   \<and> (login e (new_Service c) = None \<longrightarrow>
        configure_handler e c this =
          (Resolved
             (tool_result
                (JString (''Successfully connected to Splunk at '' @ scheme c @ ''://''
                          @ host c @ '':'' @ String_of_number e (port c)))),
           this\<lparr>splunkService := Some (new_Service c)\<rparr>, [Call_login (new_Service c)]))
   \<and> (login e (new_Service c) = Some err \<longrightarrow>
        configure_handler e c this =
          (Resolved (tool_error ''Failed to connect to Splunk: '' err),
           this\<lparr>splunkService := None\<rparr>, [Call_login (new_Service c)])
        \<and> search_handler e' a (this\<lparr>splunkService := None\<rparr>) =
          (Resolved (tool_error ''Error executing search: '' configure_first),
           this\<lparr>splunkService := None\<rparr>, []))"
  by (simp add: configure_handler_def configure_try_def configureSplunkConnection_def
      assign_Service_def login_callback_def search_handler_def search_try_def Let_def)

theorem configure_state_machine_witness:
  "login mock_env (new_Service localhost) = None
   \<and> configure_handler mock_env localhost unset =
        (Resolved
           (tool_result (JString ''Successfully connected to Splunk at https://localhost:8089'')),
         ready, [Call_login (new_Service localhost)])
   \<and> login refusing_env (new_Service localhost) = Some (Error ''Login failed'')
   \<and> configure_handler refusing_env localhost ready =
        (Resolved (tool_error ''Failed to connect to Splunk: '' (Error ''Login failed'')),
         unset, [Call_login (new_Service localhost)])
   \<and> search_handler mock_env head10 unset =
        (Resolved (tool_error ''Error executing search: '' configure_first), unset, [])"
  using configure_state_machine [of localhost unset mock_env]
    configure_state_machine
      [of localhost ready refusing_env "Error ''Login failed''" mock_env head10]
  by (simp add: mock_env_def refusing_env_def unset_def ready_def localhost_def)

text \<open>
  C3. A search invocation whose \<open>max_count\<close> is a number below 1 or above 10000 is
  rejected by the schema: the handler is not entered, no request is sent to the SDK, the
  state is as it was, and the issues name \<open>max_count\<close> as too small or too big.
\<close>

theorem max_count_out_of_range_rejected:
  assumes "get raw ''max_count'' = JNumber n" and "n < 1 \<or> 10000 < n"
  shows "\<exists>is. search_tool e raw this = (Inl is, this, [])
             \<and> ([''max_count''], if n < 1 then too_small else too_big) \<in> set is"
proof -
  let ?code = "if n < 1 then too_small else too_big"
  have "at_key ''max_count'' (z_default (z_number [Min 1, Max 10000]) (JNumber 100)) raw
          = Inl [([''max_count''], ?code)]"
    using assms by (auto simp add: at_key_def z_default_def z_number_def)
  moreover obtain kvs where "raw = JObject kvs"
    using assms(1) by (cases raw) simp_all
  ultimately obtain iss where "search_schema raw = Inl iss"
    and "([''max_count''], ?code) \<in> set iss"
    by (simp add: search_schema_def search_shape_def)
  then show ?thesis
    by (auto simp add: search_tool_def)
qed

theorem max_count_out_of_range_rejected_witness:
  "get too_many ''max_count'' = JNumber 15000 \<and> ((15000::rat) < 1 \<or> 10000 < (15000::rat))
   \<and> (\<exists>is. search_tool mock_env too_many ready = (Inl is, ready, [])
            \<and> ([''max_count''], too_big) \<in> set is)"
  using max_count_out_of_range_rejected [of too_many 15000 mock_env ready]
  by (simp add: too_many_def)

text \<open>
  C4 as stated fails at the server_info resource: read without a session, it answers
  with the error text as the content of the resource, and the response has no error
  indicator.
\<close>

theorem server_info_error_without_indicator:
  "server_info mock_env unset =
     (Resolved
        (JObject [(''contents'', JArray [JObject
           [(''uri'', JString ''splunk://info''),
            (''text'', JString ''Error getting server info: Splunk service not initialized'')]])]),
      unset, [])
   \<and> \<not> error_indicator
        (JObject [(''contents'', JArray [JObject
           [(''uri'', JString ''splunk://info''),
            (''text'', JString ''Error getting server info: Splunk service not initialized'')]])])"
  by (simp add: server_info_def server_info_try_def server_info_error_def resource_result_def
      not_initialized_def unset_def error_indicator_def)

text \<open>
  C4, amended. Every failure of an operation is answered at its boundary. A missing
  session, an error delivered by any external call (login, search, track, results, the
  fetch of saved searches or indexes, dispatch), a job that is not delivered to search and
  a name that is not found are each answered by the tool with a response whose text is
  the operation's prefix followed by the error message and whose \<open>isError\<close> is true.
  The server_info resource answers a missing session and an error of its external call
  with the error text as its content and no error indicator; the status resource has no
  failing path. Arguments the schema rejects are answered, before the handler is entered,
  with an error that carries the issues found. No handler's promise is rejected: search,
  configure, list_saved_searches, list_indexes and the two resources always answer, and
  run_saved_search answers whenever \<open>dispatch\<close> calls back with an error or a job.
\<close>

theorem failures_answered_at_boundary:
  "(splunkService this = None \<longrightarrow>
      fst (search_handler e a this) =
        Resolved (tool_error ''Error executing search: '' configure_first)
      \<and> fst (list_saved_searches_handler e this) =
        Resolved (tool_error ''Error listing saved searches: '' configure_first)
      \<and> fst (list_indexes_handler e this) =
        Resolved (tool_error ''Error listing indexes: '' configure_first)
      \<and> fst (run_saved_search_handler e r this) =
        Resolved (tool_error ''Error running saved search: '' configure_first)
      \<and> fst (server_info e this) = Resolved (server_info_error not_initialized))
   \<and> (login e (new_Service c) = Some err \<longrightarrow>
      fst (configure_handler e c this) =
        Resolved (tool_error ''Failed to connect to Splunk: '' err))
   \<and> (splunkService this = Some svc
        \<and> search_call e svc (search_text (query a)) (make_searchParams a) = (Some err, j) \<longrightarrow>
      fst (search_handler e a this) = Resolved (tool_error ''Error executing search: '' err))
   \<and> (splunkService this = Some svc
        \<and> search_call e svc (search_text (query a)) (make_searchParams a) = (None, None) \<longrightarrow>
      fst (search_handler e a this) =
        Resolved (tool_error ''Error executing search: '' (TypeError_undefined ''track'')))
   \<and> (splunkService this = Some svc
        \<and> search_call e svc (search_text (query a)) (make_searchParams a) = (None, Some job)
        \<and> track job = Some err \<longrightarrow>
      fst (search_handler e a this) = Resolved (tool_error ''Error executing search: '' err))
   \<and> (splunkService this = Some svc
        \<and> search_call e svc (search_text (query a)) (make_searchParams a) = (None, Some job)
        \<and> track job = None \<and> results job (output_mode a) = (Some err, res) \<longrightarrow>
      fst (search_handler e a this) = Resolved (tool_error ''Error executing search: '' err))
   \<and> (splunkService this = Some svc \<and> savedSearches_fetch e svc = (Some err, x) \<longrightarrow>
      fst (list_saved_searches_handler e this) =
        Resolved (tool_error ''Error listing saved searches: '' err)
      \<and> fst (run_saved_search_handler e r this) =
        Resolved (tool_error ''Error running saved search: '' err))
   \<and> (splunkService this = Some svc \<and> indexes_fetch e svc = (Some err, y) \<longrightarrow>
      fst (list_indexes_handler e this) = Resolved (tool_error ''Error listing indexes: '' err))
   \<and> (splunkService this = Some svc \<and> savedSearches_fetch e svc = (None, coll)
        \<and> (case coll of None \<Rightarrow> None | Some cl \<Rightarrow> item cl (arg_name r)) = None \<longrightarrow>
      fst (run_saved_search_handler e r this) =
        Resolved (tool_error ''Error running saved search: '' (not_found (arg_name r))))
   \<and> (splunkService this = Some svc \<and> savedSearches_fetch e svc = (None, Some cl)
        \<and> item cl (arg_name r) = Some s \<and> dispatch_call s (overrides r) = (Some err, j) \<longrightarrow>
      fst (run_saved_search_handler e r this) =
        Resolved (tool_error ''Error running saved search: '' err))
   \<and> (splunkService this = Some svc \<and> savedSearches_fetch e svc = (None, Some cl)
        \<and> item cl (arg_name r) = Some s \<and> dispatch_call s (overrides r) = (None, Some job)
        \<and> track job = Some err \<longrightarrow>
      fst (run_saved_search_handler e r this) =
        Resolved (tool_error ''Error running saved search: '' err))
   \<and> (splunkService this = Some svc \<and> savedSearches_fetch e svc = (None, Some cl)
        \<and> item cl (arg_name r) = Some s \<and> dispatch_call s (overrides r) = (None, Some job)
        \<and> track job = None \<and> results job ''json'' = (Some err, res) \<longrightarrow>
      fst (run_saved_search_handler e r this) =
        Resolved (tool_error ''Error running saved search: '' err))
   \<and> (splunkService this = Some svc \<and> serverInfo e svc = (Some err, z) \<longrightarrow>
      fst (server_info e this) = Resolved (server_info_error err))
   \<and> (\<exists>v. fst (search_handler e a this) = Resolved v)
   \<and> (\<exists>v. fst (configure_handler e c this) = Resolved v)
   \<and> (\<exists>v. fst (list_saved_searches_handler e this) = Resolved v)
   \<and> (\<exists>v. fst (list_indexes_handler e this) = Resolved v)
   \<and> (\<not> dispatched_without_job e r this \<longrightarrow>
        (\<exists>v. fst (run_saved_search_handler e r this) = Resolved v))
   \<and> fst (run_saved_search_handler e r this) \<noteq> Rejected err
   \<and> (\<exists>v. fst (server_info e this) = Resolved v)
   \<and> (\<exists>v. fst (connection_status this) = Resolved v)
   \<and> tool_error pfx err =
        JObject [(''content'',
                  JArray [JObject [(''type'', JString ''text''),
                                   (''text'', JString (pfx @ error_text err))]]),
                 (''isError'', JBoolean True)]
   \<and> error_indicator (tool_error pfx err)
   \<and> server_info_error err =
        JObject [(''contents'',
                  JArray [JObject [(''uri'', JString ''splunk://info''),
                                   (''text'',
                                    JString (''Error getting server info: '' @ error_text err))]])]
   \<and> \<not> error_indicator (server_info_error err)
   \<and> (search_schema raw = Inl iss \<longrightarrow>
        search_tool e raw this = (Inl iss, this, []) \<and> iss \<noteq> []
        \<and> error_reply (fst (search_tool e raw this)))
   \<and> (configure_schema raw = Inl iss \<longrightarrow>
        configure_tool e raw this = (Inl iss, this, []) \<and> iss \<noteq> []
        \<and> error_reply (fst (configure_tool e raw this)))
   \<and> (run_saved_search_schema raw = Inl iss \<longrightarrow>
        run_saved_search_tool e raw this = (Inl iss, this, []) \<and> iss \<noteq> []
        \<and> error_reply (fst (run_saved_search_tool e raw this)))
   \<and> (empty_schema raw = Inl iss \<longrightarrow>
        list_saved_searches_tool e raw this = (Inl iss, this, []) \<and> iss \<noteq> []
        \<and> error_reply (fst (list_saved_searches_tool e raw this))
        \<and> list_indexes_tool e raw this = (Inl iss, this, [])
        \<and> error_reply (fst (list_indexes_tool e raw this)))"
proof -
  have missing:
    "splunkService this = None \<longrightarrow>
      fst (search_handler e a this) =
        Resolved (tool_error ''Error executing search: '' configure_first)
      \<and> fst (list_saved_searches_handler e this) =
        Resolved (tool_error ''Error listing saved searches: '' configure_first)
      \<and> fst (list_indexes_handler e this) =
        Resolved (tool_error ''Error listing indexes: '' configure_first)
      \<and> fst (run_saved_search_handler e r this) =
        Resolved (tool_error ''Error running saved search: '' configure_first)
      \<and> fst (server_info e this) = Resolved (server_info_error not_initialized)"
    by (simp add: handlers_unset)
  have refused:
    "login e (new_Service c) = Some err \<longrightarrow>
      fst (configure_handler e c this) =
        Resolved (tool_error ''Failed to connect to Splunk: '' err)"
    by (simp add: configure_handler_refused)
  have searching:
    "splunkService this = Some svc
        \<and> search_call e svc (search_text (query a)) (make_searchParams a) = (Some err, j) \<longrightarrow>
      fst (search_handler e a this) = Resolved (tool_error ''Error executing search: '' err)"
    "splunkService this = Some svc
        \<and> search_call e svc (search_text (query a)) (make_searchParams a) = (None, None) \<longrightarrow>
      fst (search_handler e a this) =
        Resolved (tool_error ''Error executing search: '' (TypeError_undefined ''track''))"
    "splunkService this = Some svc
        \<and> search_call e svc (search_text (query a)) (make_searchParams a) = (None, Some job)
        \<and> track job = Some err \<longrightarrow>
      fst (search_handler e a this) = Resolved (tool_error ''Error executing search: '' err)"
    "splunkService this = Some svc
        \<and> search_call e svc (search_text (query a)) (make_searchParams a) = (None, Some job)
        \<and> track job = None \<and> results job (output_mode a) = (Some err, res) \<longrightarrow>
      fst (search_handler e a this) = Resolved (tool_error ''Error executing search: '' err)"
    by (simp_all add: search_handler_failures search_handler_without_job)
  have listing:
    "splunkService this = Some svc \<and> savedSearches_fetch e svc = (Some err, x) \<longrightarrow>
      fst (list_saved_searches_handler e this) =
        Resolved (tool_error ''Error listing saved searches: '' err)
      \<and> fst (run_saved_search_handler e r this) =
        Resolved (tool_error ''Error running saved search: '' err)"
    "splunkService this = Some svc \<and> indexes_fetch e svc = (Some err, y) \<longrightarrow>
      fst (list_indexes_handler e this) = Resolved (tool_error ''Error listing indexes: '' err)"
    "splunkService this = Some svc \<and> serverInfo e svc = (Some err, z) \<longrightarrow>
      fst (server_info e this) = Resolved (server_info_error err)"
    by (simp_all add: list_saved_searches_handler_failure run_saved_search_handler_fetch_failure
        list_indexes_handler_failure server_info_failure)
  have running:
    "splunkService this = Some svc \<and> savedSearches_fetch e svc = (None, coll)
        \<and> (case coll of None \<Rightarrow> None | Some cl \<Rightarrow> item cl (arg_name r)) = None \<longrightarrow>
      fst (run_saved_search_handler e r this) =
        Resolved (tool_error ''Error running saved search: '' (not_found (arg_name r)))"
    "splunkService this = Some svc \<and> savedSearches_fetch e svc = (None, Some cl)
        \<and> item cl (arg_name r) = Some s \<and> dispatch_call s (overrides r) = (Some err, j) \<longrightarrow>
      fst (run_saved_search_handler e r this) =
        Resolved (tool_error ''Error running saved search: '' err)"
    "splunkService this = Some svc \<and> savedSearches_fetch e svc = (None, Some cl)
        \<and> item cl (arg_name r) = Some s \<and> dispatch_call s (overrides r) = (None, Some job)
        \<and> track job = Some err \<longrightarrow>
      fst (run_saved_search_handler e r this) =
        Resolved (tool_error ''Error running saved search: '' err)"
    "splunkService this = Some svc \<and> savedSearches_fetch e svc = (None, Some cl)
        \<and> item cl (arg_name r) = Some s \<and> dispatch_call s (overrides r) = (None, Some job)
        \<and> track job = None \<and> results job ''json'' = (Some err, res) \<longrightarrow>
      fst (run_saved_search_handler e r this) =
        Resolved (tool_error ''Error running saved search: '' err)"
    by (simp_all add: run_saved_search_handler_not_found run_saved_search_handler_failures)
  have answers:
    "\<exists>v. fst (search_handler e a this) = Resolved v"
    "\<exists>v. fst (configure_handler e c this) = Resolved v"
    "\<exists>v. fst (list_saved_searches_handler e this) = Resolved v"
    "\<exists>v. fst (list_indexes_handler e this) = Resolved v"
    "\<not> dispatched_without_job e r this \<longrightarrow>
       (\<exists>v. fst (run_saved_search_handler e r this) = Resolved v)"
    "fst (run_saved_search_handler e r this) \<noteq> Rejected err"
    "\<exists>v. fst (server_info e this) = Resolved v"
    "\<exists>v. fst (connection_status this) = Resolved v"
    using search_handler_answers configure_handler_answers list_saved_searches_handler_answers
      list_indexes_handler_answers run_saved_search_handler_answers server_info_answers
      connection_status_answers
    by (simp_all add: run_saved_search_handler_def try_catch_not_Rejected)
  have shape:
    "tool_error pfx err =
        JObject [(''content'',
                  JArray [JObject [(''type'', JString ''text''),
                                   (''text'', JString (pfx @ error_text err))]]),
                 (''isError'', JBoolean True)]"
    "error_indicator (tool_error pfx err)"
    "server_info_error err =
        JObject [(''contents'',
                  JArray [JObject [(''uri'', JString ''splunk://info''),
                                   (''text'',
                                    JString (''Error getting server info: '' @ error_text err))]])]"
    "\<not> error_indicator (server_info_error err)"
    by (simp_all add: error_indicator_def tool_error_def text_content_def server_info_error_def
        resource_result_def)
  have invalid:
    "search_schema raw = Inl iss \<longrightarrow>
        search_tool e raw this = (Inl iss, this, []) \<and> iss \<noteq> []
        \<and> error_reply (fst (search_tool e raw this))"
    "configure_schema raw = Inl iss \<longrightarrow>
        configure_tool e raw this = (Inl iss, this, []) \<and> iss \<noteq> []
        \<and> error_reply (fst (configure_tool e raw this))"
    "run_saved_search_schema raw = Inl iss \<longrightarrow>
        run_saved_search_tool e raw this = (Inl iss, this, []) \<and> iss \<noteq> []
        \<and> error_reply (fst (run_saved_search_tool e raw this))"
    "empty_schema raw = Inl iss \<longrightarrow>
        list_saved_searches_tool e raw this = (Inl iss, this, []) \<and> iss \<noteq> []
        \<and> error_reply (fst (list_saved_searches_tool e raw this))
        \<and> list_indexes_tool e raw this = (Inl iss, this, [])
        \<and> error_reply (fst (list_indexes_tool e raw this))"
    using schemas_not_empty [of raw]
    by (auto simp add: search_tool_def configure_tool_def run_saved_search_tool_def
        list_saved_searches_tool_def list_indexes_tool_def server_tool_rejects error_reply_def)
  from missing refused searching listing(1,2) running listing(3) answers shape invalid
  show ?thesis
    by (intro conjI)
qed

theorem failures_answered_at_boundary_witness:
  "fst (search_handler mock_env head10 unset) =
       Resolved (tool_error ''Error executing search: '' configure_first)
   \<and> fst (list_saved_searches_handler mock_env unset) =
       Resolved (tool_error ''Error listing saved searches: '' configure_first)
   \<and> fst (list_indexes_handler mock_env unset) =
       Resolved (tool_error ''Error listing indexes: '' configure_first)
   \<and> fst (run_saved_search_handler mock_env run_daily unset) =
       Resolved (tool_error ''Error running saved search: '' configure_first)
   \<and> fst (server_info mock_env unset) = Resolved (server_info_error not_initialized)
   \<and> fst (configure_handler failing_env localhost ready) =
       Resolved (tool_error ''Failed to connect to Splunk: '' plain_error)
   \<and> fst (search_handler failing_env head10 ready) =
       Resolved (tool_error ''Error executing search: '' plain_error)
   \<and> fst (search_handler (serving (None, None)) head10 ready) =
       Resolved (tool_error ''Error executing search: '' (TypeError_undefined ''track''))
   \<and> fst (search_handler (serving (None, Some stuck_job)) head10 ready) =
       Resolved (tool_error ''Error executing search: '' plain_error)
   \<and> fst (search_handler (serving (None, Some empty_job)) head10 ready) =
       Resolved (tool_error ''Error executing search: '' plain_error)
   \<and> fst (list_saved_searches_handler failing_env ready) =
       Resolved (tool_error ''Error listing saved searches: '' plain_error)
   \<and> fst (run_saved_search_handler failing_env run_daily ready) =
       Resolved (tool_error ''Error running saved search: '' plain_error)
   \<and> fst (list_indexes_handler failing_env ready) =
       Resolved (tool_error ''Error listing indexes: '' plain_error)
   \<and> fst (server_info failing_env ready) = Resolved (server_info_error plain_error)
   \<and> fst (run_saved_search_handler mock_env weekly ready) =
       Resolved (tool_error ''Error running saved search: '' (not_found ''Weekly Report''))
   \<and> fst (run_saved_search_handler (listing (report_with (Some plain_error, None))) run_daily ready) =
       Resolved (tool_error ''Error running saved search: '' plain_error)
   \<and> fst (run_saved_search_handler (listing (report_with (None, Some stuck_job))) run_daily ready) =
       Resolved (tool_error ''Error running saved search: '' plain_error)
   \<and> fst (run_saved_search_handler (listing (report_with (None, Some empty_job))) run_daily ready) =
       Resolved (tool_error ''Error running saved search: '' plain_error)
   \<and> \<not> dispatched_without_job mock_env run_daily ready
   \<and> (\<exists>v. fst (run_saved_search_handler mock_env run_daily ready) = Resolved v)
   \<and> search_tool mock_env too_many unset = (Inl [([''max_count''], too_big)], unset, [])
   \<and> error_reply (fst (search_tool mock_env too_many unset))
   \<and> configure_tool mock_env too_many unset =
       (Inl [([''host''], invalid_type), ([''username''], invalid_type),
             ([''password''], invalid_type)], unset, [])
   \<and> error_reply (fst (configure_tool mock_env too_many unset))
   \<and> run_saved_search_tool mock_env too_many unset = (Inl [([''name''], invalid_type)], unset, [])
   \<and> error_reply (fst (run_saved_search_tool mock_env too_many unset))
   \<and> list_saved_searches_tool mock_env JUndefined unset = (Inl [([], invalid_type)], unset, [])
   \<and> error_reply (fst (list_saved_searches_tool mock_env JUndefined unset))
   \<and> list_indexes_tool mock_env JUndefined unset = (Inl [([], invalid_type)], unset, [])
   \<and> error_reply (fst (list_indexes_tool mock_env JUndefined unset))"
proof -
  have none: "splunkService unset = None"
    by (simp add: unset_def)
  note missing = failures_answered_at_boundary
    [where e = mock_env and this = unset and a = head10 and r = run_daily and c = localhost
       and err = plain_error and svc = "new_Service localhost" and j = None and job = mock_job
       and res = JUndefined and x = None and y = None and z = None and coll = None
       and cl = "\<lparr>list = []\<rparr>" and s = daily_report and pfx = "''''"
       and raw = too_many and iss = "[]"]
  note failing = failures_answered_at_boundary
    [where e = failing_env and this = ready and a = head10 and r = run_daily and c = localhost
       and err = plain_error and svc = "new_Service localhost" and j = None and job = mock_job
       and res = JUndefined and x = None and y = None and z = None and coll = None
       and cl = "\<lparr>list = []\<rparr>" and s = daily_report and pfx = "''''"
       and raw = too_many and iss = "[]"]
  note no_job = failures_answered_at_boundary
    [where e = "serving (None, None)" and this = ready and a = head10 and r = run_daily
       and c = localhost and err = plain_error and svc = "new_Service localhost" and j = None
       and job = mock_job and res = JUndefined and x = None and y = None and z = None
       and coll = None and cl = "\<lparr>list = []\<rparr>" and s = daily_report
       and pfx = "''''" and raw = too_many and iss = "[]"]
  note stuck = failures_answered_at_boundary
    [where e = "serving (None, Some stuck_job)" and this = ready and a = head10
       and r = run_daily and c = localhost and err = plain_error
       and svc = "new_Service localhost" and j = None and job = stuck_job and res = JUndefined
       and x = None and y = None and z = None and coll = None
       and cl = "\<lparr>list = []\<rparr>" and s = daily_report and pfx = "''''"
       and raw = too_many and iss = "[]"]
  note empty = failures_answered_at_boundary
    [where e = "serving (None, Some empty_job)" and this = ready and a = head10
       and r = run_daily and c = localhost and err = plain_error
       and svc = "new_Service localhost" and j = None and job = empty_job and res = JUndefined
       and x = None and y = None and z = None and coll = None
       and cl = "\<lparr>list = []\<rparr>" and s = daily_report and pfx = "''''"
       and raw = too_many and iss = "[]"]
  note unknown = failures_answered_at_boundary
    [where e = mock_env and this = ready and a = head10 and r = weekly and c = localhost
       and err = plain_error and svc = "new_Service localhost" and j = None and job = mock_job
       and res = JUndefined and x = None and y = None and z = None
       and coll = "Some \<lparr>list = [daily_report, failed_logins]\<rparr>"
       and cl = "\<lparr>list = []\<rparr>" and s = daily_report and pfx = "''''"
       and raw = too_many and iss = "[]"]
  note refused_dispatch = failures_answered_at_boundary
    [where e = "listing (report_with (Some plain_error, None))" and this = ready and a = head10
       and r = run_daily and c = localhost and err = plain_error
       and svc = "new_Service localhost" and j = None and job = mock_job and res = JUndefined
       and x = None and y = None and z = None and coll = None
       and cl = "\<lparr>list = [report_with (Some plain_error, None)]\<rparr>"
       and s = "report_with (Some plain_error, None)" and pfx = "''''" and raw = too_many
       and iss = "[]"]
  note stuck_dispatch = failures_answered_at_boundary
    [where e = "listing (report_with (None, Some stuck_job))" and this = ready and a = head10
       and r = run_daily and c = localhost and err = plain_error
       and svc = "new_Service localhost" and j = None and job = stuck_job and res = JUndefined
       and x = None and y = None and z = None and coll = None
       and cl = "\<lparr>list = [report_with (None, Some stuck_job)]\<rparr>"
       and s = "report_with (None, Some stuck_job)" and pfx = "''''" and raw = too_many
       and iss = "[]"]
  note empty_dispatch = failures_answered_at_boundary
    [where e = "listing (report_with (None, Some empty_job))" and this = ready and a = head10
       and r = run_daily and c = localhost and err = plain_error
       and svc = "new_Service localhost" and j = None and job = empty_job and res = JUndefined
       and x = None and y = None and z = None and coll = None
       and cl = "\<lparr>list = [report_with (None, Some empty_job)]\<rparr>"
       and s = "report_with (None, Some empty_job)" and pfx = "''''" and raw = too_many
       and iss = "[]"]
  note answering = failures_answered_at_boundary
    [where e = mock_env and this = ready and a = head10 and r = run_daily and c = localhost
       and err = plain_error and svc = "new_Service localhost" and j = None and job = mock_job
       and res = JUndefined and x = None and y = None and z = None and coll = None
       and cl = "\<lparr>list = []\<rparr>" and s = daily_report and pfx = "''''"
       and raw = too_many and iss = "[]"]
  note invalid_search = failures_answered_at_boundary
    [where e = mock_env and this = unset and a = head10 and r = run_daily and c = localhost
       and err = plain_error and svc = "new_Service localhost" and j = None and job = mock_job
       and res = JUndefined and x = None and y = None and z = None and coll = None
       and cl = "\<lparr>list = []\<rparr>" and s = daily_report and pfx = "''''"
       and raw = too_many and iss = "[([''max_count''], too_big)]"]
  note invalid_configure = failures_answered_at_boundary
    [where e = mock_env and this = unset and a = head10 and r = run_daily and c = localhost
       and err = plain_error and svc = "new_Service localhost" and j = None and job = mock_job
       and res = JUndefined and x = None and y = None and z = None and coll = None
       and cl = "\<lparr>list = []\<rparr>" and s = daily_report and pfx = "''''"
       and raw = too_many
       and iss = "[([''host''], invalid_type), ([''username''], invalid_type), ([''password''], invalid_type)]"]
  note invalid_run = failures_answered_at_boundary
    [where e = mock_env and this = unset and a = head10 and r = run_daily and c = localhost
       and err = plain_error and svc = "new_Service localhost" and j = None and job = mock_job
       and res = JUndefined and x = None and y = None and z = None and coll = None
       and cl = "\<lparr>list = []\<rparr>" and s = daily_report and pfx = "''''"
       and raw = too_many and iss = "[([''name''], invalid_type)]"]
  note invalid_list = failures_answered_at_boundary
    [where e = mock_env and this = unset and a = head10 and r = run_daily and c = localhost
       and err = plain_error and svc = "new_Service localhost" and j = None and job = mock_job
       and res = JUndefined and x = None and y = None and z = None and coll = None
       and cl = "\<lparr>list = []\<rparr>" and s = daily_report and pfx = "''''"
       and raw = JUndefined and iss = "[([], invalid_type)]"]
  have job: "\<not> dispatched_without_job mock_env run_daily ready"
    by (simp add: dispatched_without_job_def overrides_def ready_def mock_env_def item_def run_daily_def
        daily_report_def)
  have name: "arg_name weekly = ''Weekly Report''"
    by (simp add: weekly_def)
  have "fst (search_handler mock_env head10 unset) =
       Resolved (tool_error ''Error executing search: '' configure_first)
   \<and> fst (list_saved_searches_handler mock_env unset) =
       Resolved (tool_error ''Error listing saved searches: '' configure_first)
   \<and> fst (list_indexes_handler mock_env unset) =
       Resolved (tool_error ''Error listing indexes: '' configure_first)
   \<and> fst (run_saved_search_handler mock_env run_daily unset) =
       Resolved (tool_error ''Error running saved search: '' configure_first)
   \<and> fst (server_info mock_env unset) = Resolved (server_info_error not_initialized)"
    using none missing by simp
  moreover have "fst (configure_handler failing_env localhost ready) =
       Resolved (tool_error ''Failed to connect to Splunk: '' plain_error)
   \<and> fst (search_handler failing_env head10 ready) =
       Resolved (tool_error ''Error executing search: '' plain_error)
   \<and> fst (list_saved_searches_handler failing_env ready) =
       Resolved (tool_error ''Error listing saved searches: '' plain_error)
   \<and> fst (run_saved_search_handler failing_env run_daily ready) =
       Resolved (tool_error ''Error running saved search: '' plain_error)
   \<and> fst (list_indexes_handler failing_env ready) =
       Resolved (tool_error ''Error listing indexes: '' plain_error)
   \<and> fst (server_info failing_env ready) = Resolved (server_info_error plain_error)"
    using ready_service failing_env_answers failing by simp
  moreover have "fst (search_handler (serving (None, None)) head10 ready) =
       Resolved (tool_error ''Error executing search: '' (TypeError_undefined ''track''))"
    using ready_service serving_answers no_job by simp
  moreover have "fst (search_handler (serving (None, Some stuck_job)) head10 ready) =
       Resolved (tool_error ''Error executing search: '' plain_error)"
    using ready_service serving_answers jobs_fail stuck by simp
  moreover have "fst (search_handler (serving (None, Some empty_job)) head10 ready) =
       Resolved (tool_error ''Error executing search: '' plain_error)"
    using ready_service serving_answers jobs_fail empty by simp
  moreover have "fst (run_saved_search_handler mock_env weekly ready) =
       Resolved (tool_error ''Error running saved search: '' (not_found ''Weekly Report''))"
    using ready_service item_weekly name unknown by simp
  moreover have
    "fst (run_saved_search_handler (listing (report_with (Some plain_error, None))) run_daily ready) =
       Resolved (tool_error ''Error running saved search: '' plain_error)"
    using ready_service listing_answers item_report_with refused_dispatch by simp
  moreover have
    "fst (run_saved_search_handler (listing (report_with (None, Some stuck_job))) run_daily ready) =
       Resolved (tool_error ''Error running saved search: '' plain_error)"
    using ready_service listing_answers item_report_with jobs_fail stuck_dispatch by simp
  moreover have
    "fst (run_saved_search_handler (listing (report_with (None, Some empty_job))) run_daily ready) =
       Resolved (tool_error ''Error running saved search: '' plain_error)"
    using ready_service listing_answers item_report_with jobs_fail empty_dispatch by simp
  moreover have "\<exists>v. fst (run_saved_search_handler mock_env run_daily ready) = Resolved v"
    using job answering by simp
  moreover have "search_tool mock_env too_many unset = (Inl [([''max_count''], too_big)], unset, [])
   \<and> error_reply (fst (search_tool mock_env too_many unset))"
    using schemas_too_many invalid_search
    by (simp add: error_reply_def)
  moreover have "configure_tool mock_env too_many unset =
       (Inl [([''host''], invalid_type), ([''username''], invalid_type),
             ([''password''], invalid_type)], unset, [])
   \<and> error_reply (fst (configure_tool mock_env too_many unset))"
    using schemas_too_many invalid_configure
    by (simp add: error_reply_def)
  moreover have "run_saved_search_tool mock_env too_many unset =
       (Inl [([''name''], invalid_type)], unset, [])
   \<and> error_reply (fst (run_saved_search_tool mock_env too_many unset))"
    using schemas_too_many invalid_run
    by (simp add: error_reply_def)
  moreover have "list_saved_searches_tool mock_env JUndefined unset =
       (Inl [([], invalid_type)], unset, [])
   \<and> error_reply (fst (list_saved_searches_tool mock_env JUndefined unset))
   \<and> list_indexes_tool mock_env JUndefined unset = (Inl [([], invalid_type)], unset, [])
   \<and> error_reply (fst (list_indexes_tool mock_env JUndefined unset))"
    using schemas_missing_arguments invalid_list
    by (simp add: error_reply_def)
  ultimately show ?thesis
    using job by (simp add: error_reply_def)
qed

text \<open>
  C5. No operation other than configure changes the session handle, whatever the external
  calls answer, and none sends a request twice. In search, list_saved_searches,
  list_indexes, run_saved_search and server_info, an external call that is answered with
  an error makes the operation return that error at once: the failed request is the last
  one sent and the handle is as it was. configure clears the handle when the login is
  refused.
\<close>

theorem failed_call_leaves_session:
  "fst (snd (search_handler e a this)) = this
   \<and> fst (snd (list_saved_searches_handler e this)) = this
   \<and> fst (snd (list_indexes_handler e this)) = this
   \<and> fst (snd (run_saved_search_handler e r this)) = this
   \<and> fst (snd (server_info e this)) = this
   \<and> fst (snd (connection_status this)) = this
   \<and> distinct (snd (snd (search_handler e a this)))
   \<and> distinct (snd (snd (list_saved_searches_handler e this)))
   \<and> distinct (snd (snd (list_indexes_handler e this)))
   \<and> distinct (snd (snd (run_saved_search_handler e r this)))
   \<and> distinct (snd (snd (server_info e this)))
   \<and> (splunkService this = Some svc
        \<and> search_call e svc (search_text (query a)) (make_searchParams a) = (Some err, j) \<longrightarrow>
       search_handler e a this =
         (Resolved (tool_error ''Error executing search: '' err), this,
          [Call_search svc (search_text (query a)) (make_searchParams a)]))
   \<and> (splunkService this = Some svc
        \<and> search_call e svc (search_text (query a)) (make_searchParams a) = (None, Some job)
        \<and> track job = Some err \<longrightarrow>
       search_handler e a this =
         (Resolved (tool_error ''Error executing search: '' err), this,
          [Call_search svc (search_text (query a)) (make_searchParams a), Call_track]))
   \<and> (splunkService this = Some svc
        \<and> search_call e svc (search_text (query a)) (make_searchParams a) = (None, Some job)
        \<and> track job = None \<and> results job (output_mode a) = (Some err, res) \<longrightarrow>
       search_handler e a this =
         (Resolved (tool_error ''Error executing search: '' err), this,
          [Call_search svc (search_text (query a)) (make_searchParams a), Call_track,
           Call_results (output_mode a)]))
   \<and> (splunkService this = Some svc \<and> savedSearches_fetch e svc = (Some err, x) \<longrightarrow>
       list_saved_searches_handler e this =
         (Resolved (tool_error ''Error listing saved searches: '' err), this,
          [Call_savedSearches_fetch svc])
       \<and> run_saved_search_handler e r this =
         (Resolved (tool_error ''Error running saved search: '' err), this,
          [Call_savedSearches_fetch svc]))
   \<and> (splunkService this = Some svc \<and> indexes_fetch e svc = (Some err, y) \<longrightarrow>
       list_indexes_handler e this =
         (Resolved (tool_error ''Error listing indexes: '' err), this, [Call_indexes_fetch svc]))
   \<and> (splunkService this = Some svc \<and> savedSearches_fetch e svc = (None, Some cl)
        \<and> item cl (arg_name r) = Some s \<and> dispatch_call s (overrides r) = (Some err, j) \<longrightarrow>
       run_saved_search_handler e r this =
         (Resolved (tool_error ''Error running saved search: '' err), this,
          [Call_savedSearches_fetch svc, Call_dispatch (name s) (overrides r)]))
   \<and> (splunkService this = Some svc \<and> savedSearches_fetch e svc = (None, Some cl)
        \<and> item cl (arg_name r) = Some s \<and> dispatch_call s (overrides r) = (None, Some job)
        \<and> track job = Some err \<longrightarrow>
       run_saved_search_handler e r this =
         (Resolved (tool_error ''Error running saved search: '' err), this,
          [Call_savedSearches_fetch svc, Call_dispatch (name s) (overrides r), Call_track]))
   \<and> (splunkService this = Some svc \<and> savedSearches_fetch e svc = (None, Some cl)
        \<and> item cl (arg_name r) = Some s \<and> dispatch_call s (overrides r) = (None, Some job)
        \<and> track job = None \<and> results job ''json'' = (Some err, res) \<longrightarrow>
       run_saved_search_handler e r this =
         (Resolved (tool_error ''Error running saved search: '' err), this,
          [Call_savedSearches_fetch svc, Call_dispatch (name s) (overrides r), Call_track,
           Call_results ''json'']))
   \<and> (splunkService this = Some svc \<and> serverInfo e svc = (Some err, z) \<longrightarrow>
       server_info e this = (Resolved (server_info_error err), this, [Call_serverInfo svc]))
   \<and> (login e (new_Service c) = Some err \<longrightarrow>
       configure_handler e c this =
         (Resolved (tool_error ''Failed to connect to Splunk: '' err),
          this\<lparr>splunkService := None\<rparr>, [Call_login (new_Service c)]))
   \<and> error_indicator (tool_error pfx err)"
proof -
  have frame:
    "fst (snd (search_handler e a this)) = this"
    "fst (snd (list_saved_searches_handler e this)) = this"
    "fst (snd (list_indexes_handler e this)) = this"
    "fst (snd (run_saved_search_handler e r this)) = this"
    "fst (snd (server_info e this)) = this"
    "fst (snd (connection_status this)) = this"
    "distinct (snd (snd (search_handler e a this)))"
    "distinct (snd (snd (list_saved_searches_handler e this)))"
    "distinct (snd (snd (list_indexes_handler e this)))"
    "distinct (snd (snd (run_saved_search_handler e r this)))"
    "distinct (snd (snd (server_info e this)))"
    by (simp_all add: search_handler_frame list_saved_searches_handler_frame
        list_indexes_handler_frame run_saved_search_handler_frame server_info_frame
        connection_status_frame)
  have searching:
    "splunkService this = Some svc
        \<and> search_call e svc (search_text (query a)) (make_searchParams a) = (Some err, j) \<longrightarrow>
       search_handler e a this =
         (Resolved (tool_error ''Error executing search: '' err), this,
          [Call_search svc (search_text (query a)) (make_searchParams a)])"
    "splunkService this = Some svc
        \<and> search_call e svc (search_text (query a)) (make_searchParams a) = (None, Some job)
        \<and> track job = Some err \<longrightarrow>
       search_handler e a this =
         (Resolved (tool_error ''Error executing search: '' err), this,
          [Call_search svc (search_text (query a)) (make_searchParams a), Call_track])"
    "splunkService this = Some svc
        \<and> search_call e svc (search_text (query a)) (make_searchParams a) = (None, Some job)
        \<and> track job = None \<and> results job (output_mode a) = (Some err, res) \<longrightarrow>
       search_handler e a this =
         (Resolved (tool_error ''Error executing search: '' err), this,
          [Call_search svc (search_text (query a)) (make_searchParams a), Call_track,
           Call_results (output_mode a)])"
    by (simp_all add: search_handler_failures)
  have fetching:
    "splunkService this = Some svc \<and> savedSearches_fetch e svc = (Some err, x) \<longrightarrow>
       list_saved_searches_handler e this =
         (Resolved (tool_error ''Error listing saved searches: '' err), this,
          [Call_savedSearches_fetch svc])
       \<and> run_saved_search_handler e r this =
         (Resolved (tool_error ''Error running saved search: '' err), this,
          [Call_savedSearches_fetch svc])"
    "splunkService this = Some svc \<and> indexes_fetch e svc = (Some err, y) \<longrightarrow>
       list_indexes_handler e this =
         (Resolved (tool_error ''Error listing indexes: '' err), this, [Call_indexes_fetch svc])"
    by (simp_all add: list_saved_searches_handler_failure run_saved_search_handler_fetch_failure
        list_indexes_handler_failure)
  have running:
    "splunkService this = Some svc \<and> savedSearches_fetch e svc = (None, Some cl)
        \<and> item cl (arg_name r) = Some s \<and> dispatch_call s (overrides r) = (Some err, j) \<longrightarrow>
       run_saved_search_handler e r this =
         (Resolved (tool_error ''Error running saved search: '' err), this,
          [Call_savedSearches_fetch svc, Call_dispatch (name s) (overrides r)])"
    "splunkService this = Some svc \<and> savedSearches_fetch e svc = (None, Some cl)
        \<and> item cl (arg_name r) = Some s \<and> dispatch_call s (overrides r) = (None, Some job)
        \<and> track job = Some err \<longrightarrow>
       run_saved_search_handler e r this =
         (Resolved (tool_error ''Error running saved search: '' err), this,
          [Call_savedSearches_fetch svc, Call_dispatch (name s) (overrides r), Call_track])"
    "splunkService this = Some svc \<and> savedSearches_fetch e svc = (None, Some cl)
        \<and> item cl (arg_name r) = Some s \<and> dispatch_call s (overrides r) = (None, Some job)
        \<and> track job = None \<and> results job ''json'' = (Some err, res) \<longrightarrow>
       run_saved_search_handler e r this =
         (Resolved (tool_error ''Error running saved search: '' err), this,
          [Call_savedSearches_fetch svc, Call_dispatch (name s) (overrides r), Call_track,
           Call_results ''json''])"
    by (simp_all add: run_saved_search_handler_failures)
  have rest:
    "splunkService this = Some svc \<and> serverInfo e svc = (Some err, z) \<longrightarrow>
       server_info e this = (Resolved (server_info_error err), this, [Call_serverInfo svc])"
    "login e (new_Service c) = Some err \<longrightarrow>
       configure_handler e c this =
         (Resolved (tool_error ''Failed to connect to Splunk: '' err),
          this\<lparr>splunkService := None\<rparr>, [Call_login (new_Service c)])"
    "error_indicator (tool_error pfx err)"
    by (simp_all add: server_info_failure configure_handler_refused error_indicator_def
        tool_error_def)
  from frame searching fetching running rest show ?thesis
    by (intro conjI)
qed

theorem failed_call_leaves_session_witness:
  "search_handler failing_env head10 ready =
     (Resolved (tool_error ''Error executing search: '' plain_error), ready,
      [Call_search (new_Service localhost) (search_text (query head10)) (make_searchParams head10)])
   \<and> search_handler (serving (None, Some stuck_job)) head10 ready =
     (Resolved (tool_error ''Error executing search: '' plain_error), ready,
      [Call_search (new_Service localhost) (search_text (query head10)) (make_searchParams head10),
       Call_track])
   \<and> search_handler (serving (None, Some empty_job)) head10 ready =
     (Resolved (tool_error ''Error executing search: '' plain_error), ready,
      [Call_search (new_Service localhost) (search_text (query head10)) (make_searchParams head10),
       Call_track, Call_results ''json''])
   \<and> list_saved_searches_handler failing_env ready =
     (Resolved (tool_error ''Error listing saved searches: '' plain_error), ready,
      [Call_savedSearches_fetch (new_Service localhost)])
   \<and> list_indexes_handler failing_env ready =
     (Resolved (tool_error ''Error listing indexes: '' plain_error), ready,
      [Call_indexes_fetch (new_Service localhost)])
   \<and> run_saved_search_handler failing_env run_daily ready =
     (Resolved (tool_error ''Error running saved search: '' plain_error), ready,
      [Call_savedSearches_fetch (new_Service localhost)])
   \<and> run_saved_search_handler (listing (report_with (Some plain_error, None))) run_daily ready =
     (Resolved (tool_error ''Error running saved search: '' plain_error), ready,
      [Call_savedSearches_fetch (new_Service localhost),
       Call_dispatch ''Daily Error Report'' \<lparr>earliest_time = None, latest_time = None\<rparr>])
   \<and> run_saved_search_handler (listing (report_with (None, Some stuck_job))) run_daily ready =
     (Resolved (tool_error ''Error running saved search: '' plain_error), ready,
      [Call_savedSearches_fetch (new_Service localhost),
       Call_dispatch ''Daily Error Report'' \<lparr>earliest_time = None, latest_time = None\<rparr>,
       Call_track])
   \<and> run_saved_search_handler (listing (report_with (None, Some empty_job))) run_daily ready =
     (Resolved (tool_error ''Error running saved search: '' plain_error), ready,
      [Call_savedSearches_fetch (new_Service localhost),
       Call_dispatch ''Daily Error Report'' \<lparr>earliest_time = None, latest_time = None\<rparr>,
       Call_track, Call_results ''json''])
   \<and> server_info failing_env ready =
     (Resolved (server_info_error plain_error), ready, [Call_serverInfo (new_Service localhost)])
   \<and> configure_handler failing_env localhost ready =
     (Resolved (tool_error ''Failed to connect to Splunk: '' plain_error), unset,
      [Call_login (new_Service localhost)])"
proof -
  note failing = failed_call_leaves_session
    [where e = failing_env and this = ready and a = head10 and r = run_daily and c = localhost
       and err = plain_error and svc = "new_Service localhost" and j = None and job = mock_job
       and res = JUndefined and x = None and y = None and z = None
       and cl = "\<lparr>list = []\<rparr>" and s = daily_report and pfx = "''''"]
  note stuck = failed_call_leaves_session
    [where e = "serving (None, Some stuck_job)" and this = ready and a = head10
       and r = run_daily and c = localhost and err = plain_error
       and svc = "new_Service localhost" and j = None and job = stuck_job and res = JUndefined
       and x = None and y = None and z = None and cl = "\<lparr>list = []\<rparr>"
       and s = daily_report and pfx = "''''"]
  note empty = failed_call_leaves_session
    [where e = "serving (None, Some empty_job)" and this = ready and a = head10
       and r = run_daily and c = localhost and err = plain_error
       and svc = "new_Service localhost" and j = None and job = empty_job and res = JUndefined
       and x = None and y = None and z = None and cl = "\<lparr>list = []\<rparr>"
       and s = daily_report and pfx = "''''"]
  note refused_dispatch = failed_call_leaves_session
    [where e = "listing (report_with (Some plain_error, None))" and this = ready and a = head10
       and r = run_daily and c = localhost and err = plain_error
       and svc = "new_Service localhost" and j = None and job = mock_job and res = JUndefined
       and x = None and y = None and z = None
       and cl = "\<lparr>list = [report_with (Some plain_error, None)]\<rparr>"
       and s = "report_with (Some plain_error, None)" and pfx = "''''"]
  note stuck_dispatch = failed_call_leaves_session
    [where e = "listing (report_with (None, Some stuck_job))" and this = ready and a = head10
       and r = run_daily and c = localhost and err = plain_error
       and svc = "new_Service localhost" and j = None and job = stuck_job and res = JUndefined
       and x = None and y = None and z = None
       and cl = "\<lparr>list = [report_with (None, Some stuck_job)]\<rparr>"
       and s = "report_with (None, Some stuck_job)" and pfx = "''''"]
  note empty_dispatch = failed_call_leaves_session
    [where e = "listing (report_with (None, Some empty_job))" and this = ready and a = head10
       and r = run_daily and c = localhost and err = plain_error
       and svc = "new_Service localhost" and j = None and job = empty_job and res = JUndefined
       and x = None and y = None and z = None
       and cl = "\<lparr>list = [report_with (None, Some empty_job)]\<rparr>"
       and s = "report_with (None, Some empty_job)" and pfx = "''''"]
  have dispatched:
    "name (report_with answer) = ''Daily Error Report''"
    "overrides run_daily = \<lparr>earliest_time = None, latest_time = None\<rparr>"
    "output_mode head10 = ''json''"
    "ready\<lparr>splunkService := None\<rparr> = unset"
    for answer
    by (simp_all add: report_with_def daily_report_def overrides_def run_daily_def when_truthy_def
        head10_def ready_def unset_def)
  have "search_handler failing_env head10 ready =
     (Resolved (tool_error ''Error executing search: '' plain_error), ready,
      [Call_search (new_Service localhost) (search_text (query head10)) (make_searchParams head10)])
   \<and> list_saved_searches_handler failing_env ready =
     (Resolved (tool_error ''Error listing saved searches: '' plain_error), ready,
      [Call_savedSearches_fetch (new_Service localhost)])
   \<and> list_indexes_handler failing_env ready =
     (Resolved (tool_error ''Error listing indexes: '' plain_error), ready,
      [Call_indexes_fetch (new_Service localhost)])
   \<and> run_saved_search_handler failing_env run_daily ready =
     (Resolved (tool_error ''Error running saved search: '' plain_error), ready,
      [Call_savedSearches_fetch (new_Service localhost)])
   \<and> server_info failing_env ready =
     (Resolved (server_info_error plain_error), ready, [Call_serverInfo (new_Service localhost)])
   \<and> configure_handler failing_env localhost ready =
     (Resolved (tool_error ''Failed to connect to Splunk: '' plain_error), unset,
      [Call_login (new_Service localhost)])"
    using ready_service failing_env_answers dispatched failing by simp
  moreover have "search_handler (serving (None, Some stuck_job)) head10 ready =
     (Resolved (tool_error ''Error executing search: '' plain_error), ready,
      [Call_search (new_Service localhost) (search_text (query head10)) (make_searchParams head10),
       Call_track])"
    using ready_service serving_answers jobs_fail stuck by simp
  moreover have "search_handler (serving (None, Some empty_job)) head10 ready =
     (Resolved (tool_error ''Error executing search: '' plain_error), ready,
      [Call_search (new_Service localhost) (search_text (query head10)) (make_searchParams head10),
       Call_track, Call_results ''json''])"
    using ready_service serving_answers jobs_fail dispatched empty by simp
  moreover have
    "run_saved_search_handler (listing (report_with (Some plain_error, None))) run_daily ready =
     (Resolved (tool_error ''Error running saved search: '' plain_error), ready,
      [Call_savedSearches_fetch (new_Service localhost),
       Call_dispatch ''Daily Error Report'' \<lparr>earliest_time = None, latest_time = None\<rparr>])"
    using ready_service listing_answers item_report_with dispatched refused_dispatch by simp
  moreover have
    "run_saved_search_handler (listing (report_with (None, Some stuck_job))) run_daily ready =
     (Resolved (tool_error ''Error running saved search: '' plain_error), ready,
      [Call_savedSearches_fetch (new_Service localhost),
       Call_dispatch ''Daily Error Report'' \<lparr>earliest_time = None, latest_time = None\<rparr>,
       Call_track])"
    using ready_service listing_answers item_report_with jobs_fail dispatched stuck_dispatch
    by simp
  moreover have
    "run_saved_search_handler (listing (report_with (None, Some empty_job))) run_daily ready =
     (Resolved (tool_error ''Error running saved search: '' plain_error), ready,
      [Call_savedSearches_fetch (new_Service localhost),
       Call_dispatch ''Daily Error Report'' \<lparr>earliest_time = None, latest_time = None\<rparr>,
       Call_track, Call_results ''json''])"
    using ready_service listing_answers item_report_with jobs_fail dispatched empty_dispatch
    by simp
  ultimately show ?thesis
    by simp
qed

text \<open>
  C6. When the name given to run_saved_search is not the name of any saved search in the
  fetched collection (or the fetch delivered no collection), the operation fails with the
  error \<open>Saved search '<name>' not found\<close>; the fetch is the only request sent, so
  nothing is dispatched.
\<close>

theorem unknown_saved_search_not_found:
  assumes "splunkService this = Some svc"
    and "savedSearches_fetch e svc = (None, coll)"
    and "\<forall>c. coll = Some c \<longrightarrow> arg_name a \<notin> set (map name (list c))"
  shows "run_saved_search_handler e a this =
           (Resolved (tool_error ''Error running saved search: '' (not_found (arg_name a))),
            this, [Call_savedSearches_fetch svc])
       \<and> error_indicator (tool_error ''Error running saved search: '' (not_found (arg_name a)))
       \<and> error_text (not_found (arg_name a)) =
           ''Saved search '' @ [CHR 0x27] @ arg_name a @ [CHR 0x27] @ '' not found''
       \<and> Call_dispatch n opts \<notin> set (snd (snd (run_saved_search_handler e a this)))"
proof -
  have "(case coll of None \<Rightarrow> None | Some c \<Rightarrow> item c (arg_name a)) = None"
    using assms(3) by (cases coll) (simp_all add: item_def find_None_names)
  then have "runSavedSearch e (arg_name a) (override_earliest_time a) (override_latest_time a) this
      = (Rejected (not_found (arg_name a)), this, [Call_savedSearches_fetch svc])"
    using assms(1,2) by (simp add: runSavedSearch_def)
  then show ?thesis
    using assms(1)
    by (simp add: run_saved_search_handler_def run_saved_search_try_def error_indicator_def
        tool_error_def not_found_def)
qed

theorem unknown_saved_search_not_found_witness:
  "splunkService ready = Some (new_Service localhost)
   \<and> savedSearches_fetch mock_env (new_Service localhost) =
       (None, Some \<lparr>list = [daily_report, failed_logins]\<rparr>)
   \<and> arg_name weekly \<notin> set (map name [daily_report, failed_logins])
   \<and> run_saved_search_handler mock_env weekly ready =
       (Resolved
          (tool_error ''Error running saved search: ''
             (Error ''Saved search 'Weekly Report' not found'')),
        ready, [Call_savedSearches_fetch (new_Service localhost)])"
  using unknown_saved_search_not_found
    [of ready "new_Service localhost" mock_env "Some \<lparr>list = [daily_report, failed_logins]\<rparr>"
        weekly]
  by (simp add: ready_def mock_env_def weekly_def daily_report_def failed_logins_def not_found_def)

text \<open>
  C7 as stated fails for a saved search without dispatch times: the record
  list_saved_searches returns for it has the properties name, search and description
  only, since \<open>JSON.stringify\<close> leaves out the properties whose value is
  \<open>undefined\<close>.
\<close>

theorem record_without_dispatch_times:
  \<open>list_saved_searches_handler (listing failed_logins) ready =
     (Resolved
        (JObject
           [(''content'',
             JArray
               [JObject
                  [(''type'', JString ''text''),
                   (''text'',
                    JString
                      (unlines
                         [''['',
                          ''  {'',
                          ''    "name": "Failed Logins",'',
                          ''    "search": "search index=main action=failure",'',
                          ''    "description": "Failed login attempts"'',
                          ''  }'',
                          '']'']))]])]),
      ready, [Call_savedSearches_fetch (new_Service localhost)])
   \<and> JSON_value (project_search failed_logins) =
       Some (Json_object
               [(''name'', Json_string ''Failed Logins''),
                (''search'', Json_string ''search index=main action=failure''),
                (''description'', Json_string ''Failed login attempts'')])\<close>
  by (simp add: list_saved_searches_handler_def list_saved_searches_try_def getSavedSearches_def
      listing_def mock_env_def ready_def failed_logins_def project_search_def opt_string_def
      tool_result_def text_content_def JSON_stringify_def List.map_filter_simps bracketed_def
      indent_def newline_def unlines_def quote_def escape_def)

text \<open>
  C7, amended. With a session and a fetched collection, list_saved_searches returns the
  JSON text of an array with exactly one record per fetched saved search, in order. Each
  record has the name, the search text and the description of its saved search, then
  earliest_time and latest_time when the dispatch properties of the saved search define
  them, and nothing else. list_indexes returns the JSON text of an array with exactly one
  record per fetched index, in order, each with name, totalEventCount, currentDBSizeMB
  and maxDataSize.
\<close>

theorem one_returned_record_per_entity:
  "(splunkService this = Some svc \<and> savedSearches_fetch e svc = (None, Some c) \<longrightarrow>
      list_saved_searches_handler e this =
        (Resolved
           (JObject
              [(''content'',
                JArray
                  [JObject
                     [(''type'', JString ''text''),
                      (''text'',
                       JString
                         (JSON_text (String_of_number e)
                            (Json_array
                               (map (\<lambda>s. Json_object
                                       ([(''name'', Json_string (name s)),
                                         (''search'', Json_string (search (properties s))),
                                         (''description'', Json_string (description (properties s)))]
                                        @ when_defined ''earliest_time''
                                            (Option.bind (dispatch (properties s)) earliest_time)
                                        @ when_defined ''latest_time''
                                            (Option.bind (dispatch (properties s)) latest_time)))
                                  (list c)))
                            0))]])]),
         this, [Call_savedSearches_fetch svc]))
   \<and> (splunkService this = Some svc \<and> indexes_fetch e svc = (None, Some d) \<longrightarrow>
      list_indexes_handler e this =
        (Resolved
           (JObject
              [(''content'',
                JArray
                  [JObject
                     [(''type'', JString ''text''),
                      (''text'',
                       JString
                         (JSON_text (String_of_number e)
                            (Json_array
                               (map (\<lambda>i. Json_object
                                       [(''name'', Json_string (index_name i)),
                                        (''totalEventCount'',
                                         Json_number (totalEventCount (index_properties i))),
                                        (''currentDBSizeMB'',
                                         Json_number (currentDBSizeMB (index_properties i))),
                                        (''maxDataSize'',
                                         Json_string (maxDataSize (index_properties i)))])
                                  (index_list d)))
                            0))]])]),
         this, [Call_indexes_fetch svc]))
   \<and> when_defined k None = []
   \<and> when_defined k (Some t) = [(k, Json_string t)]"
proof -
  have searches:
    "list_saved_searches_handler e this =
       (Resolved (tool_result (JSON_stringify e (JArray (map project_search (list c))))), this,
        [Call_savedSearches_fetch svc])"
    if "splunkService this = Some svc" and "savedSearches_fetch e svc = (None, Some c)"
    using that
    by (simp add: list_saved_searches_handler_def list_saved_searches_try_def getSavedSearches_def)
  have indexes:
    "list_indexes_handler e this =
       (Resolved (tool_result (JSON_stringify e (JArray (map project_index (index_list d))))), this,
        [Call_indexes_fetch svc])"
    if "splunkService this = Some svc" and "indexes_fetch e svc = (None, Some d)"
    using that by (simp add: list_indexes_handler_def list_indexes_try_def getIndexes_def)
  show ?thesis
    using searches indexes
    by (simp add: JSON_stringify_JArray_map [OF JSON_value_project_search]
        JSON_stringify_JArray_map [OF JSON_value_project_index] tool_result_def text_content_def
        when_defined_def)
qed

theorem one_returned_record_per_entity_witness:
  \<open>list_saved_searches_handler mock_env ready =
     (Resolved
        (JObject
           [(''content'',
             JArray
               [JObject
                  [(''type'', JString ''text''),
                   (''text'',
                    JString
                      (unlines
                         [''['',
                          ''  {'',
                          ''    "name": "Daily Error Report",'',
                          ''    "search": "index=main level=ERROR | stats count by source",'',
                          ''    "description": "Daily error summary",'',
                          ''    "earliest_time": "-24h",'',
                          ''    "latest_time": "now"'',
                          ''  },'',
                          ''  {'',
                          ''    "name": "Failed Logins",'',
                          ''    "search": "search index=main action=failure",'',
                          ''    "description": "Failed login attempts"'',
                          ''  }'',
                          '']'']))]])]),
      ready, [Call_savedSearches_fetch (new_Service localhost)])
   \<and> list_indexes_handler mock_env ready =
     (Resolved
        (JObject
           [(''content'',
             JArray
               [JObject
                  [(''type'', JString ''text''),
                   (''text'',
                    JString
                      (unlines
                         [''['',
                          ''  {'',
                          ''    "name": "main",'',
                          ''    "totalEventCount": 1000000,'',
                          ''    "currentDBSizeMB": 1024,'',
                          ''    "maxDataSize": "auto"'',
                          ''  },'',
                          ''  {'',
                          ''    "name": "_internal",'',
                          ''    "totalEventCount": 500000,'',
                          ''    "currentDBSizeMB": 512,'',
                          ''    "maxDataSize": "auto"'',
                          ''  }'',
                          '']'']))]])]),
      ready, [Call_indexes_fetch (new_Service localhost)])\<close>
proof -
  have fetched:
    "splunkService ready = Some (new_Service localhost)"
    "savedSearches_fetch mock_env (new_Service localhost) =
       (None, Some \<lparr>list = [daily_report, failed_logins]\<rparr>)"
    "indexes_fetch mock_env (new_Service localhost) =
       (None, Some \<lparr>index_list = [main_index, internal_index]\<rparr>)"
    by (simp_all add: ready_def mock_env_def)
  have numbers:
    "String_of_number mock_env 1000000 = ''1000000''"
    "String_of_number mock_env 1024 = ''1024''"
    "String_of_number mock_env 500000 = ''500000''"
    "String_of_number mock_env 512 = ''512''"
    by (simp_all add: mock_env_def)
  show ?thesis
    using fetched numbers
      one_returned_record_per_entity
        [where this = ready and svc = "new_Service localhost" and e = mock_env
           and c = "\<lparr>list = [daily_report, failed_logins]\<rparr>"
           and d = "\<lparr>index_list = [main_index, internal_index]\<rparr>"
           and k = "''earliest_time''" and t = "''-24h''"]
    by (simp add: daily_report_def failed_logins_def main_index_def internal_index_def
        when_defined_def bracketed_def indent_def newline_def unlines_def quote_def escape_def)
qed

text \<open>
  C8. The query text a search submits is the input query when that already starts with
  \<open>search\<close>, and the input query with \<open>search \<close> put in front otherwise (so it is
  prefixed if and only if it does not start with the directive). That text is both the
  first argument and the \<open>search\<close> parameter of the one submission, which is the first
  request a search with a session sends.
\<close>

theorem search_directive_prefixed:
  "(splunkService this = Some svc \<longrightarrow>
      (\<exists>rest. snd (snd (search_handler e a this)) =
          Call_search svc (search_text (query a)) (make_searchParams a) # rest))
   \<and> sp_search (make_searchParams a) = search_text (query a)
   \<and> (search_text q = ''search '' @ q \<longleftrightarrow> \<not> prefix ''search'' q)
   \<and> (search_text q = q \<longleftrightarrow> prefix ''search'' q)"
proof -
  have params: "sp_search (make_searchParams a) = search_text (query a)"
    by (simp add: make_searchParams_def)
  have "\<exists>rest. snd (snd (search_handler e a this)) =
          Call_search svc (search_text (query a)) (make_searchParams a) # rest"
    if "splunkService this = Some svc"
    using that await_sent [of "runSearch e (make_searchParams a) this"]
      runSearch_sent [of this svc e "make_searchParams a"]
    by (simp add: search_handler_def search_try_def params)
  moreover have "search_text q = ''search '' @ q \<longleftrightarrow> \<not> prefix ''search'' q"
    by (auto simp add: search_text_def dest: arg_cong [where f = length])
  moreover have "search_text q = q \<longleftrightarrow> prefix ''search'' q"
    by (auto simp add: search_text_def dest: arg_cong [where f = length])
  ultimately show ?thesis using params by blast
qed

theorem search_directive_prefixed_witness:
  "splunkService ready = Some (new_Service localhost)
   \<and> (\<exists>rest. snd (snd (search_handler mock_env head10 ready)) =
        Call_search (new_Service localhost) ''search index=_internal | head 10''
          (make_searchParams head10) # rest)
   \<and> sp_search (make_searchParams already) = ''search index=main error''"
  using search_directive_prefixed [of ready "new_Service localhost" mock_env head10]
    search_directive_prefixed [of ready "new_Service localhost" mock_env already]
  by (simp add: ready_def head10_def already_def search_text_def)

text \<open>
  C9. For arguments the schema accepts: an omitted \<open>output_mode\<close> is parsed as
  \<open>json\<close>; a given \<open>csv\<close> or \<open>xml\<close> is parsed as itself; the parsed mode is the
  \<open>output_mode\<close> parameter of the job submission, and (when the job is delivered and
  tracked) the mode the results are fetched in.
\<close>

theorem output_mode_default_and_passthrough:
  assumes "search_schema raw = Inr a"
  shows "(get raw ''output_mode'' = JUndefined \<longrightarrow> output_mode a = ''json'')
       \<and> (m \<in> {''csv'', ''xml''} \<and> get raw ''output_mode'' = JString m \<longrightarrow> output_mode a = m)
       \<and> sp_output_mode (make_searchParams a) = output_mode a
       \<and> (splunkService this = Some svc
            \<and> search_call e svc (search_text (query a)) (make_searchParams a) = (None, Some job)
            \<and> track job = None \<longrightarrow>
          snd (snd (search_tool e raw this)) =
            [Call_search svc (search_text (query a)) (make_searchParams a), Call_track,
             Call_results (output_mode a)])"
proof -
  note field = search_schema_Inr [OF assms]
  have "output_mode a = ''json''" if "get raw ''output_mode'' = JUndefined"
    using field that by (simp add: at_key_def z_default_def z_enum_def)
  moreover have "output_mode a = m" if "get raw ''output_mode'' = JString m"
    using field that by (simp add: at_key_def z_default_def z_enum_def split: if_splits)
  moreover have "sp_output_mode (make_searchParams a) = output_mode a"
    by (simp add: make_searchParams_def)
  moreover have "snd (snd (search_tool e raw this)) =
            [Call_search svc (search_text (query a)) (make_searchParams a), Call_track,
             Call_results (output_mode a)]"
    if "splunkService this = Some svc"
      and "search_call e svc (search_text (query a)) (make_searchParams a) = (None, Some job)"
      and "track job = None"
    using search_handler_sent [OF that] assms
    by (simp add: search_tool_def server_tool_Inr)
  ultimately show ?thesis by blast
qed

theorem output_mode_default_and_passthrough_witness:
  "search_schema no_mode = Inr default_args \<and> get no_mode ''output_mode'' = JUndefined
   \<and> output_mode default_args = ''json''
   \<and> search_schema as_csv = Inr csv_args \<and> get as_csv ''output_mode'' = JString ''csv''
   \<and> splunkService ready = Some (new_Service localhost)
   \<and> search_call mock_env (new_Service localhost) (search_text (query csv_args))
        (make_searchParams csv_args) = (None, Some mock_job)
   \<and> track mock_job = None
   \<and> sp_output_mode (make_searchParams csv_args) = ''csv''
   \<and> snd (snd (search_tool mock_env as_csv ready)) =
        [Call_search (new_Service localhost) ''search index=main | head 5''
           (make_searchParams csv_args),
         Call_track, Call_results ''csv'']"
proof -
  note omitted = output_mode_default_and_passthrough [OF search_schema_no_mode]
  note given = output_mode_default_and_passthrough
    [OF search_schema_as_csv, of "''csv''" ready "new_Service localhost" mock_env mock_job]
  have undef: "get no_mode ''output_mode'' = JUndefined"
    by (simp add: no_mode_def)
  have csv: "get as_csv ''output_mode'' = JString ''csv''"
    by (simp add: as_csv_def)
  have set: "splunkService ready = Some (new_Service localhost)"
    by (simp add: ready_def)
  have job: "search_call mock_env (new_Service localhost) (search_text (query csv_args))
        (make_searchParams csv_args) = (None, Some mock_job)"
    by (simp add: mock_env_def)
  have tracked: "track mock_job = None"
    by (simp add: mock_job_def)
  have "output_mode default_args = ''json''"
    using omitted undef by blast
  moreover have "sp_output_mode (make_searchParams csv_args) = ''csv''"
    using given csv by simp
  moreover have "snd (snd (search_tool mock_env as_csv ready)) =
        [Call_search (new_Service localhost) (search_text (query csv_args))
           (make_searchParams csv_args),
         Call_track, Call_results (output_mode csv_args)]"
    using given set job tracked by blast
  then have "snd (snd (search_tool mock_env as_csv ready)) =
        [Call_search (new_Service localhost) ''search index=main | head 5''
           (make_searchParams csv_args),
         Call_track, Call_results ''csv'']"
    by (simp add: csv_args_def search_text_def)
  ultimately show ?thesis
    using undef csv set job tracked search_schema_no_mode search_schema_as_csv by simp
qed

text \<open>
  C10. When the fetch calls back with neither an error nor a collection,
  \<open>getSavedSearches\<close> and \<open>getIndexes\<close> resolve with \<open>undefined\<close>, and
  list_saved_searches and list_indexes return a success response: its text is what
  \<open>JSON.stringify\<close> gives for \<open>undefined\<close> and it has no \<open>isError\<close> property.
\<close>

theorem absent_collection_is_success:
  "(splunkService this = Some svc \<and> savedSearches_fetch e svc = (None, None) \<longrightarrow>
      getSavedSearches e this = (Resolved JUndefined, this, [Call_savedSearches_fetch svc])
      \<and> list_saved_searches_handler e this =
        (Resolved (tool_result (JSON_stringify e JUndefined)), this,
         [Call_savedSearches_fetch svc]))
   \<and> (splunkService this = Some svc \<and> indexes_fetch e svc = (None, None) \<longrightarrow>
      getIndexes e this = (Resolved JUndefined, this, [Call_indexes_fetch svc])
      \<and> list_indexes_handler e this =
        (Resolved (tool_result (JSON_stringify e JUndefined)), this, [Call_indexes_fetch svc]))
   \<and> \<not> error_indicator (tool_result t) \<and> get (tool_result t) ''isError'' = JUndefined"
  by (simp add: getSavedSearches_def list_saved_searches_handler_def list_saved_searches_try_def
      getIndexes_def list_indexes_handler_def list_indexes_try_def error_indicator_def
      tool_result_def)

theorem absent_collection_is_success_witness:
  "splunkService ready = Some (new_Service localhost)
   \<and> savedSearches_fetch silent_env (new_Service localhost) = (None, None)
   \<and> indexes_fetch silent_env (new_Service localhost) = (None, None)
   \<and> list_saved_searches_handler silent_env ready =
        (Resolved (tool_result JUndefined), ready,
         [Call_savedSearches_fetch (new_Service localhost)])
   \<and> list_indexes_handler silent_env ready =
        (Resolved (tool_result JUndefined), ready, [Call_indexes_fetch (new_Service localhost)])
   \<and> \<not> error_indicator (tool_result JUndefined)"
  using absent_collection_is_success [of ready "new_Service localhost" silent_env JUndefined]
  by (simp add: ready_def silent_env_def mock_env_def)

end
